theory Spec2Isabelle
  imports Main "HOL-Library.Multiset"
begin

section \<open>Regular expressions used by the plugin\<close>

text \<open>
  The plugin's own regular-expression literals use only literal characters, the dot,
  sequencing, alternation, the greedy optional \<open>?\<close>, the end-of-input assertion \<open>$\<close> and one
  capture group. They are embedded as a small syntax tree with the backtracking semantics of
  the language: \<open>rx_run\<close> lists, in priority order, every way a pattern can match at the
  start of the remaining input; the head of the list is the match the engine reports. An
  optional part tries its body first and does not accept an empty match of it; the dot
  matches every character but a line terminator.

  Strings are lists of \<open>char\<close>. The code compares characters with \<open>/\<close>, \<open>?\<close>, \<open>#\<close> and the
  characters of its patterns only, so a \<open>char\<close> stands for one UTF-16 code unit of the
  JavaScript string; of the line terminators, line feed and carriage return are characters
  of the model.
\<close>

datatype rx =
    Lit char
  | AnyChar
  | Cat rx rx
  | Alt rx rx
  | Opt rx
  | Eol
  | Grp rx

text \<open>A matcher state: the input still to be read and the text captured by group 1.\<close>

type_synonym mstate = "string \<times> string option"

definition is_line_terminator :: "char \<Rightarrow> bool" where
  "is_line_terminator c = (c = CHR 0x0A \<or> c = CHR 0x0D)"

fun rx_run :: "rx \<Rightarrow> mstate \<Rightarrow> mstate list" where
  "rx_run (Lit c) (s, g) =
     (case s of [] \<Rightarrow> [] | d # t \<Rightarrow> if d = c then [(t, g)] else [])"
| "rx_run AnyChar (s, g) =
     (case s of [] \<Rightarrow> [] | d # t \<Rightarrow> if is_line_terminator d then [] else [(t, g)])"
| "rx_run (Cat a b) st = concat (map (rx_run b) (rx_run a st))"
| "rx_run (Alt a b) st = rx_run a st @ rx_run b st"
| "rx_run (Opt a) (s, g) =
     filter (\<lambda>r. length (fst r) \<noteq> length s) (rx_run a (s, g)) @ [(s, g)]"
| "rx_run Eol (s, g) = (if s = [] then [(s, g)] else [])"
| "rx_run (Grp a) (s, g) =
     map (\<lambda>r. (fst r, Some (take (length s - length (fst r)) s))) (rx_run a (s, g))"

text \<open>
  A search without the global or sticky flag tries the start positions from left to right.
  The result holds the text before the match and the final matcher state.
\<close>

fun rx_search :: "rx \<Rightarrow> string \<Rightarrow> string \<Rightarrow> (string \<times> mstate) option" where
  "rx_search r pre s =
     (case rx_run r (s, None) of
        m # _ \<Rightarrow> Some (pre, m)
      | [] \<Rightarrow> (case s of [] \<Rightarrow> None | c # t \<Rightarrow> rx_search r (pre @ [c]) t))"

declare rx_search.simps [simp del]

definition rx_test :: "rx \<Rightarrow> string \<Rightarrow> bool" where
  "rx_test r s = (rx_search r [] s \<noteq> None)"

section \<open>helpers.ts\<close>

record File =
  path :: string
  name :: string

definition UPLOAD_IGNORES :: "rx list" where
  "UPLOAD_IGNORES =
     [Cat AnyChar (Cat (Lit CHR ''D'') (Cat (Lit CHR ''S'') (Cat (Lit CHR ''_'')
        (Cat (Lit CHR ''S'') (Cat (Lit CHR ''t'') (Cat (Lit CHR ''o'')
        (Cat (Lit CHR ''r'') (Lit CHR ''e''))))))))]"

definition S3_PATH_SEP :: string where
  "S3_PATH_SEP = ''/''"

text \<open>The pattern \<^verbatim>\<open>/\/?(\?|#|$)/\<close> of \<open>addTrailingS3Sep\<close>.\<close>

definition trailing_sep_rx :: rx where
  "trailing_sep_rx =
     Cat (Opt (Lit CHR ''/'')) (Grp (Alt (Lit CHR ''?'') (Alt (Lit CHR ''#'') Eol)))"

text \<open>
  \<^verbatim>\<open>fPath ? fPath.replace(/\/?(\?|#|$)/, '/$1') : fPath\<close>: the empty string is falsy and is
  returned as it is; otherwise the first match is replaced by the separator followed by the
  text of group 1.
\<close>

definition addTrailingS3Sep :: "string \<Rightarrow> string" where
  "addTrailingS3Sep fPath =
     (if fPath = [] then fPath
      else (case rx_search trailing_sep_rx [] fPath of
              None \<Rightarrow> fPath
            | Some (pre, (rest, g)) \<Rightarrow>
                pre @ ''/'' @ (case g of None \<Rightarrow> [] | Some x \<Rightarrow> x) @ rest))"

section \<open>JavaScript values\<close>

text \<open>
  The values that rule functions return and that upload parameters hold. \<open>JObject\<close> is an
  object that is neither a plain object nor an array (a stream, a buffer), identified by a
  handle.
\<close>

datatype jsval = JUndefined | JNull | JBool bool | JNum int | JStr string | JObject nat

fun truthy :: "jsval \<Rightarrow> bool" where
  "truthy JUndefined = False"
| "truthy JNull = False"
| "truthy (JBool b) = b"
| "truthy (JNum n) = (n \<noteq> 0)"
| "truthy (JStr s) = (s \<noteq> [])"
| "truthy (JObject h) = True"

datatype error =
    InvalidRule
  | SyntaxError
  | TypeError
  | UserError string

text \<open>
  A \<open>RegExp\<close> object is mutable: with the global or the sticky flag, \<open>test\<close> starts at
  \<open>lastIndex\<close> and writes it back. The pattern of an object is embedded as its matcher: for
  a subject and an index, the end of the match that starts at that index, if there is one.
\<close>

record RegExp =
  matcher :: "string \<Rightarrow> nat \<Rightarrow> nat option"
  global :: bool
  sticky :: bool
  lastIndex :: nat

text \<open>The matcher of a pattern written as a syntax tree.\<close>

definition rx_matcher :: "rx \<Rightarrow> string \<Rightarrow> nat \<Rightarrow> nat option" where
  "rx_matcher r S i =
     (case rx_run r (drop i S, None) of
        [] \<Rightarrow> None
      | m # ms \<Rightarrow> Some (length S - length (fst m)))"

text \<open>
  \<open>RegExpBuiltinExec\<close>, as far as \<open>test\<close> needs it: the end index of the match found. The
  search starts at \<open>lastIndex\<close> when the object is global or sticky, at 0 otherwise; a
  sticky object tries that index only, any other one every index up to the length of the
  subject (\<open>scan\<close>, over the rest of the subject).
\<close>

fun scan :: "(nat \<Rightarrow> nat option) \<Rightarrow> nat \<Rightarrow> 'a list \<Rightarrow> nat option" where
  "scan m i [] = m i"
| "scan m i (c # rest) = (case m i of Some e \<Rightarrow> Some e | None \<Rightarrow> scan m (Suc i) rest)"

definition RegExpBuiltinExec :: "RegExp \<Rightarrow> string \<Rightarrow> nat option" where
  "RegExpBuiltinExec R S =
     (let i = (if global R \<or> sticky R then lastIndex R else 0)
      in if i > length S then None
         else if sticky R then matcher R S i
         else scan (matcher R S) i (drop i S))"

text \<open>
  \<open>RegExp.prototype.test\<close>: the result and the object afterwards. A global or sticky object
  keeps the end of the match in \<open>lastIndex\<close>, and 0 after a failure.
\<close>

definition RegExp_test :: "RegExp \<Rightarrow> string \<Rightarrow> bool \<times> RegExp" where
  "RegExp_test R S =
     (case RegExpBuiltinExec R S of
        None \<Rightarrow> (False, if global R \<or> sticky R then R\<lparr>lastIndex := 0\<rparr> else R)
      | Some e \<Rightarrow> (True, if global R \<or> sticky R then R\<lparr>lastIndex := e\<rparr> else R))"

text \<open>
  Objects are shared by reference: the same \<open>RegExp\<close> may be the include rule, a member of a
  rule list and a priority pattern. The store maps a reference to its object, and every
  function that calls \<open>test\<close> on a configured pattern takes the store and returns it.
\<close>

type_synonym ref = nat

type_synonym store = "ref \<Rightarrow> RegExp"

text \<open>
  \<open>Rule\<close> of helpers.ts, as the values \<open>testRule\<close> can meet at run time: a \<open>RegExp\<close>
  (by reference), a function (taken to be pure), an array of rules, a string, or a value of
  none of these shapes.
\<close>

datatype other_value = ONull | OBool bool | ONum int | OObject

datatype rule =
    RuleRegExp ref
  | RuleFunction "string \<Rightarrow> jsval"
  | RuleArray "rule list"
  | RuleString string
  | RuleOther other_value

fun other_truthy :: "other_value \<Rightarrow> bool" where
  "other_truthy ONull = False"
| "other_truthy (OBool b) = b"
| "other_truthy (ONum n) = (n \<noteq> 0)"
| "other_truthy OObject = True"

fun rule_truthy :: "rule \<Rightarrow> bool" where
  "rule_truthy (RuleString s) = (s \<noteq> [])"
| "rule_truthy (RuleOther v) = other_truthy v"
| "rule_truthy _ = True"

text \<open>
  \<open>testRule\<close>. The branches are tried in the order of the source. \<open>newRegExp\<close> is the
  constructor \<^verbatim>\<open>new RegExp(rule)\<close>, which gives the matcher of a fresh object without
  flags: \<open>None\<close> when the string is not a valid pattern (the constructor throws a
  \<open>SyntaxError\<close>). \<open>testRule_every\<close> is \<^verbatim>\<open>rule.every(...)\<close>, which stops at the first member
  that does not match. The store comes back as the calls of \<open>test\<close> have left it, also when
  a later member throws.
\<close>

fun testRule ::
    "(string \<Rightarrow> (string \<Rightarrow> nat \<Rightarrow> nat option) option) \<Rightarrow> rule \<Rightarrow> string \<Rightarrow> store \<Rightarrow> (error + bool) \<times> store"
  and testRule_every ::
    "(string \<Rightarrow> (string \<Rightarrow> nat \<Rightarrow> nat option) option) \<Rightarrow> rule list \<Rightarrow> string \<Rightarrow> store \<Rightarrow> (error + bool) \<times> store"
where
  "testRule newRegExp (RuleRegExp r) subject st =
     (case RegExp_test (st r) subject of (b, R') \<Rightarrow> (Inr b, st(r := R')))"
| "testRule newRegExp (RuleFunction f) subject st = (Inr (truthy (f subject)), st)"
| "testRule newRegExp (RuleArray rs) subject st = testRule_every newRegExp rs subject st"
| "testRule newRegExp (RuleString p) subject st =
     (case newRegExp p of
        None \<Rightarrow> (Inl SyntaxError, st)
      | Some m \<Rightarrow>
          (Inr (fst (RegExp_test \<lparr>matcher = m, global = False, sticky = False, lastIndex = 0\<rparr> subject)),
           st))"
| "testRule newRegExp (RuleOther v) subject st = (Inl InvalidRule, st)"
| "testRule_every newRegExp [] subject st = (Inr True, st)"
| "testRule_every newRegExp (condition # rs) subject st =
     (case testRule newRegExp condition subject st of
        (Inl e, st') \<Rightarrow> (Inl e, st')
      | (Inr b, st') \<Rightarrow> if b then testRule_every newRegExp rs subject st' else (Inr False, st'))"

section \<open>s3\_plugin.ts: options, filtering and priority tiers\<close>

record PluginOptions =
  directory :: "string option"
  "include" :: "rule option"
  exclude :: "rule option"
  basePath :: string
  priority :: "ref list option"
  htmlFiles :: "string list option"
  progress :: bool

text \<open>
  \<^verbatim>\<open>_.some(UPLOAD_IGNORES, (ignore) => new RegExp(ignore).test(file))\<close>: a fresh object
  without flags for every call.
\<close>

definition isIgnoredFile :: "string \<Rightarrow> bool" where
  "isIgnoredFile file = list_ex (\<lambda>ignore. rx_test ignore file) UPLOAD_IGNORES"

text \<open>
  \<open>isIncludeAndNotExclude\<close>: both rules are evaluated, the include rule first, before the
  results are combined; an option that is absent or falsy is not tested.
\<close>

definition isIncludeAndNotExclude ::
  "(string \<Rightarrow> (string \<Rightarrow> nat \<Rightarrow> nat option) option) \<Rightarrow> PluginOptions \<Rightarrow> string \<Rightarrow> store \<Rightarrow>
     (error + bool) \<times> store" where
  "isIncludeAndNotExclude newRegExp opts file st =
     (case (case include opts of
              None \<Rightarrow> (Inr True, st)
            | Some r \<Rightarrow> if rule_truthy r then testRule newRegExp r file st else (Inr True, st)) of
        (Inl e, st') \<Rightarrow> (Inl e, st')
      | (Inr isInclude, st') \<Rightarrow>
          (case (case exclude opts of
                   None \<Rightarrow> (Inr False, st')
                 | Some r \<Rightarrow> if rule_truthy r then testRule newRegExp r file st' else (Inr False, st')) of
             (Inl e, st'') \<Rightarrow> (Inl e, st'')
           | (Inr isExclude, st'') \<Rightarrow> (Inr (isInclude \<and> \<not> isExclude), st'')))"

text \<open>\<open>filterAllowedFiles\<close>: the \<open>reduce\<close> over the files, with the accumulator \<open>res\<close>.\<close>

fun filterAllowedFiles_reduce ::
  "(string \<Rightarrow> (string \<Rightarrow> nat \<Rightarrow> nat option) option) \<Rightarrow> PluginOptions \<Rightarrow> File list \<Rightarrow> File list \<Rightarrow> store \<Rightarrow>
     (error + File list) \<times> store" where
  "filterAllowedFiles_reduce newRegExp opts res [] st = (Inr res, st)"
| "filterAllowedFiles_reduce newRegExp opts res (file # files) st =
     (case isIncludeAndNotExclude newRegExp opts (name file) st of
        (Inl e, st') \<Rightarrow> (Inl e, st')
      | (Inr ok, st') \<Rightarrow>
          filterAllowedFiles_reduce newRegExp opts
            (if ok \<and> \<not> isIgnoredFile (name file) then res @ [file] else res) files st')"

definition filterAllowedFiles ::
  "(string \<Rightarrow> (string \<Rightarrow> nat \<Rightarrow> nat option) option) \<Rightarrow> PluginOptions \<Rightarrow> File list \<Rightarrow> store \<Rightarrow>
     (error + File list) \<times> store" where
  "filterAllowedFiles newRegExp opts files st = filterAllowedFiles_reduce newRegExp opts [] files st"

text \<open>
  \<^verbatim>\<open>_.remove(array, predicate)\<close> calls the predicate once on every element, in order, takes
  the elements it accepts out of the array and returns them; both lists keep the order of the
  array. The predicate may change a state. The result is (removed, what stays) and the state.
\<close>

fun lodash_remove :: "('a \<Rightarrow> 's \<Rightarrow> bool \<times> 's) \<Rightarrow> 'a list \<Rightarrow> 's \<Rightarrow> ('a list \<times> 'a list) \<times> 's" where
  "lodash_remove p [] st = (([], []), st)"
| "lodash_remove p (x # xs) st =
     (case p x st of
        (b, st') \<Rightarrow>
          (case lodash_remove p xs st' of
             ((removed, remaining), st'') \<Rightarrow>
               (if b then (x # removed, remaining) else (removed, x # remaining), st'')))"

text \<open>
  \<open>prioritizeFiles\<close>: \<open>priority.map\<close> runs over the patterns in order, each call removing
  from \<open>remainingFiles\<close> the files on whose name \<open>reg.test\<close> answers true.
\<close>

definition reg_test :: "ref \<Rightarrow> File \<Rightarrow> store \<Rightarrow> bool \<times> store" where
  "reg_test reg file st = (case RegExp_test (st reg) (name file) of (b, R') \<Rightarrow> (b, st(reg := R')))"

fun prioritizeFiles_map :: "ref list \<Rightarrow> File list \<Rightarrow> store \<Rightarrow> (File list \<times> File list list) \<times> store" where
  "prioritizeFiles_map [] remainingFiles st = ((remainingFiles, []), st)"
| "prioritizeFiles_map (reg # regs) remainingFiles st =
     (case lodash_remove (reg_test reg) remainingFiles st of
        ((removed, remaining), st') \<Rightarrow>
          (case prioritizeFiles_map regs remaining st' of
             ((rest, prioritizedFiles), st'') \<Rightarrow> ((rest, removed # prioritizedFiles), st'')))"

definition prioritizeFiles :: "PluginOptions \<Rightarrow> File list \<Rightarrow> store \<Rightarrow> File list list \<times> store" where
  "prioritizeFiles opts files st =
     (case prioritizeFiles_map (case priority opts of None \<Rightarrow> [] | Some p \<Rightarrow> p) files st of
        ((remainingFiles, prioritizedFiles), st') \<Rightarrow> (remainingFiles # prioritizedFiles, st'))"

section \<open>Promises\<close>

text \<open>
  A promise is embedded as the time at which it settles together with its outcome: \<open>Inl\<close> a
  rejection, \<open>Inr\<close> the value it is fulfilled with. Time is a count of ticks; every function
  that creates promises is given the time \<open>now\<close> at which it runs. (Every request of the
  model settles at some time: the plugin has no timeout, and a request that never settles is
  outside the model.)
\<close>

type_synonym 'a promise = "nat \<times> (error + 'a)"

definition settle_time :: "'a promise \<Rightarrow> nat" where
  "settle_time p = fst p"

definition is_rejected :: "'a promise \<Rightarrow> bool" where
  "is_rejected p = isl (snd p)"

definition is_fulfilled :: "'a promise \<Rightarrow> bool" where
  "is_fulfilled p = (\<not> isl (snd p))"

definition promise_resolve :: "nat \<Rightarrow> 'a \<Rightarrow> 'a promise" where
  "promise_resolve now v = (now, Inr v)"

text \<open>
  \<^verbatim>\<open>p.then(onFulfilled)\<close>: a rejection passes through; otherwise the callback runs at the time
  \<open>p\<close> is fulfilled, and the new promise follows the promise the callback returns (a callback
  that returns a plain value or throws is one that returns a promise settled at that time).
\<close>

definition promise_then :: "'a promise \<Rightarrow> (nat \<Rightarrow> 'a \<Rightarrow> 'b promise) \<Rightarrow> 'b promise" where
  "promise_then p onFulfilled =
     (case p of
        (t, Inl e) \<Rightarrow> (t, Inl e)
      | (t, Inr v) \<Rightarrow> (case onFulfilled t v of (t', r) \<Rightarrow> (max t t', r)))"

text \<open>
  \<open>Promise.all\<close>: rejected by the member that rejects first in time (the earlier member of the
  list when two reject on the same tick) as soon as it rejects; fulfilled with the list of
  values once the last member is fulfilled.
\<close>

fun first_rejection :: "'a promise list \<Rightarrow> (nat \<times> error) option" where
  "first_rejection [] = None"
| "first_rejection ((t, Inr v) # ps) = first_rejection ps"
| "first_rejection ((t, Inl e) # ps) =
     (case first_rejection ps of
        None \<Rightarrow> Some (t, e)
      | Some (t', e') \<Rightarrow> if t' < t then Some (t', e') else Some (t, e))"

fun fulfilled_values :: "'a promise list \<Rightarrow> 'a list" where
  "fulfilled_values [] = []"
| "fulfilled_values ((t, Inr v) # ps) = v # fulfilled_values ps"
| "fulfilled_values ((t, Inl e) # ps) = fulfilled_values ps"

definition promise_all :: "nat \<Rightarrow> 'a promise list \<Rightarrow> 'a list promise" where
  "promise_all now ps =
     (case first_rejection ps of
        Some (t, e) \<Rightarrow> (max now t, Inl e)
      | None \<Rightarrow> (fold max (map fst ps) now, Inr (fulfilled_values ps)))"

section \<open>s3\_plugin.ts: the plugin and its uploads\<close>

text \<open>
  An object with string keys is a map from property names to values. A value of the
  upload-option template is a constant or a function of the file name and the local path.
\<close>

type_synonym params = "string \<rightharpoonup> jsval"

datatype optionConfig = Constant jsval | Computed "string \<Rightarrow> string \<Rightarrow> jsval"

datatype distribution_id = IdString string | IdArray "string list"

record CloudfrontInvalidateOptions =
  DistributionId :: "distribution_id option"
  Items :: "string list"

record S3Plugin =
  isConnected :: bool
  uploadOptions :: "string \<rightharpoonup> optionConfig"
  cloudfrontInvalidateOptions :: "CloudfrontInvalidateOptions option"
  basePathTransform :: "string \<Rightarrow> nat \<Rightarrow> string promise"
  options :: PluginOptions
  noCdnizer :: bool
  cdnizerOptions_files :: "string list"
  regexps :: store

text \<open>
  The plugin object, together with the store of the \<open>RegExp\<close> objects that its options
  refer to (\<open>regexps\<close>).
\<close>

text \<open>
  What the plugin calls outside itself: the \<open>RegExp\<close> constructor, \<open>mime.getType\<close>,
  \<open>fs.createReadStream\<close>, the storage client's managed upload (the promise of
  \<^verbatim>\<open>client.upload(params).promise()\<close> for a request started at a given time),
  \<open>cloudfront.createInvalidation\<close> (sent at a given time, answering with the invalidation id
  or an error), the clock (\<open>Date_now i\<close> is what the \<open>i\<close>-th reading of one pass returns),
  the platform's path separator and \<open>path.resolve\<close>, the directory walk of
  \<open>recursive-readdir\<close>, lodash's \<^verbatim>\<open>uniq('name')\<close>, and the rewrite of one file on disk by
  \<open>cdnizeHtml\<close> (read, cdnizer, write).
\<close>

record InvalidationRequest =
  Request_DistributionId :: string
  CallerReference :: nat
  Paths_Quantity :: nat
  Paths_Items :: "string list"

record Runtime =
  RegExp_new :: "string \<Rightarrow> (string \<Rightarrow> nat \<Rightarrow> nat option) option"
  mime_getType :: "string \<Rightarrow> string option"
  fs_createReadStream :: "string \<Rightarrow> jsval"
  s3_upload :: "params \<Rightarrow> nat \<Rightarrow> jsval promise"
  cloudfront_createInvalidation :: "InvalidationRequest \<Rightarrow> nat \<Rightarrow> string promise"
  Date_now :: "nat \<Rightarrow> nat"
  PATH_SEP :: char
  path_resolve :: "string \<Rightarrow> string \<Rightarrow> string"
  readDir :: "string \<Rightarrow> nat \<Rightarrow> string list promise"
  lodash_uniq :: "File list \<Rightarrow> File list"
  cdnizeHtml :: "File \<Rightarrow> nat \<Rightarrow> File promise"

definition DEFAULT_UPLOAD_OPTIONS :: params where
  "DEFAULT_UPLOAD_OPTIONS = [''ACL'' \<mapsto> JStr ''public-read'']"

definition REQUIRED_S3_UP_OPTS :: "string list" where
  "REQUIRED_S3_UP_OPTS = [''Bucket'']"

definition DEFAULT_TRANSFORM :: "string \<Rightarrow> nat \<Rightarrow> string promise" where
  "DEFAULT_TRANSFORM item now = promise_resolve now item"

text \<open>
  \<^verbatim>\<open>_.merge(object, source)\<close> on objects whose values are primitives or objects that lodash
  does not merge recursively (streams, buffers): each property of the source is assigned,
  except that an \<open>undefined\<close> source value is skipped when the destination has the key. A
  plain object or an array as a value of the template is outside the model.
\<close>

definition lodash_merge :: "params \<Rightarrow> params \<Rightarrow> params" where
  "lodash_merge object source =
     (\<lambda>k. case source k of
            None \<Rightarrow> object k
          | Some v \<Rightarrow> if v = JUndefined \<and> object k \<noteq> None then object k else Some v)"

text \<open>
  \<open>transformBasePath\<close>: the configured transform, then \<open>addTrailingS3Sep\<close>, then the
  assignment to \<open>options.basePath\<close>. The promise carries the plugin after the assignment.
\<close>

definition transformBasePath :: "S3Plugin \<Rightarrow> nat \<Rightarrow> S3Plugin promise" where
  "transformBasePath plugin now =
     promise_then
       (promise_then (basePathTransform plugin (basePath (options plugin)) now)
          (\<lambda>t item. promise_resolve t (addTrailingS3Sep item)))
       (\<lambda>t nPath. promise_resolve t (plugin\<lparr>options := (options plugin)\<lparr>basePath := nPath\<rparr>\<rparr>))"

text \<open>
  \<open>uploadFile\<close>, in three parts: the local \<open>Key\<close> (the concatenation, then the removal of
  one leading separator), the local \<open>s3Params\<close> (the template resolved by \<open>_.mapValues\<close>,
  then the content type from the file name when none is set), and the call of the client
  with the merged request. \<open>client\<close> is set by \<open>connect\<close>, which \<open>apply\<close> runs before it
  registers the hook.
\<close>

definition uploadFile_Key :: "S3Plugin \<Rightarrow> string \<Rightarrow> string" where
  "uploadFile_Key plugin fileName =
     (let Key = basePath (options plugin) @ fileName
      in (case Key of c # rest \<Rightarrow> if c = CHR ''/'' then rest else Key | [] \<Rightarrow> Key))"

definition resolve_optionConfig :: "string \<Rightarrow> string \<Rightarrow> optionConfig \<Rightarrow> jsval" where
  "resolve_optionConfig fileName file optionConfig =
     (case optionConfig of
        Computed f \<Rightarrow> f fileName file
      | Constant v \<Rightarrow> v)"

definition uploadFile_s3Params :: "Runtime \<Rightarrow> S3Plugin \<Rightarrow> string \<Rightarrow> string \<Rightarrow> params" where
  "uploadFile_s3Params rt plugin fileName file =
     (let s3Params = (\<lambda>k. map_option (resolve_optionConfig fileName file) (uploadOptions plugin k))
      in if s3Params ''ContentType'' = None \<or> s3Params ''ContentType'' = Some JUndefined
         then (case mime_getType rt fileName of
                 None \<Rightarrow> s3Params
               | Some contentType \<Rightarrow>
                   if contentType \<noteq> [] then s3Params(''ContentType'' \<mapsto> JStr contentType)
                   else s3Params)
         else s3Params)"

record Upload =
  upload :: params
  promise :: "jsval promise"

definition uploadFile :: "Runtime \<Rightarrow> S3Plugin \<Rightarrow> nat \<Rightarrow> string \<Rightarrow> string \<Rightarrow> Upload \<times> S3Plugin" where
  "uploadFile rt plugin now fileName file =
     (let Key = uploadFile_Key plugin fileName;
          s3Params = uploadFile_s3Params rt plugin fileName file;
          Body = fs_createReadStream rt file;
          request = lodash_merge
                      (lodash_merge [''Key'' \<mapsto> JStr Key, ''Body'' \<mapsto> Body] DEFAULT_UPLOAD_OPTIONS)
                      s3Params
      in (\<lparr>upload = request, promise = s3_upload rt request now\<rparr>,
          if \<not> noCdnizer plugin
          then plugin\<lparr>cdnizerOptions_files := cdnizerOptions_files plugin @ [''*'' @ fileName @ ''*'']\<rparr>
          else plugin))"

text \<open>\<^verbatim>\<open>files.map((file) => this.uploadFile(file.name, file.path))\<close>, the plugin threaded.\<close>

fun uploadFile_map :: "Runtime \<Rightarrow> S3Plugin \<Rightarrow> nat \<Rightarrow> File list \<Rightarrow> Upload list \<times> S3Plugin" where
  "uploadFile_map rt plugin now [] = ([], plugin)"
| "uploadFile_map rt plugin now (file # files) =
     (case uploadFile rt plugin now (name file) (path file) of
        (u, plugin') \<Rightarrow>
          (case uploadFile_map rt plugin' now files of
             (us, plugin'') \<Rightarrow> (u # us, plugin'')))"

text \<open>
  \<open>uploadPriorityChunk\<close> starts the uploads of one tier and returns the aggregate of their
  promises.
\<close>

definition uploadPriorityChunk ::
  "Runtime \<Rightarrow> S3Plugin \<Rightarrow> nat \<Rightarrow> File list \<Rightarrow> (Upload list \<times> S3Plugin) \<times> jsval list promise" where
  "uploadPriorityChunk rt plugin now priorityChunk =
     (case uploadFile_map rt plugin now priorityChunk of
        (uploadFiles, plugin') \<Rightarrow>
          ((uploadFiles, plugin'), promise_all now (map promise uploadFiles)))"

text \<open>
  \<open>uploadInPriorityOrder\<close>. \<open>uploadFunctions\<close> holds one closure per tier; a closure is
  embedded as the tier it would upload, since none is ever called. The closures are handed to
  \<^verbatim>\<open>uploadFunctions.map(Promise.resolve)\<close>: \<open>map\<close> calls \<open>Promise.resolve\<close> with no receiver,
  and \<open>Promise.resolve\<close> throws a \<open>TypeError\<close> when its receiver is not an object, so the call
  throws on the first element; on an empty array nothing is called.
\<close>

definition Array_map_Promise_resolve :: "nat \<Rightarrow> 'a list \<Rightarrow> error + 'a promise list" where
  "Array_map_Promise_resolve now xs = (if xs = [] then Inr [] else Inl TypeError)"

definition uploadInPriorityOrder ::
  "S3Plugin \<Rightarrow> nat \<Rightarrow> File list \<Rightarrow> (error + File list list promise) \<times> S3Plugin" where
  "uploadInPriorityOrder plugin now files =
     (case prioritizeFiles (options plugin) files (regexps plugin) of
        (priorityChunks, st') \<Rightarrow>
          (let uploadFunctions = priorityChunks
           in (case Array_map_Promise_resolve now uploadFunctions of
                 Inl e \<Rightarrow> Inl e
               | Inr ps \<Rightarrow> Inr (promise_all now ps),
               plugin\<lparr>regexps := st'\<rparr>)))"

text \<open>
  \<open>uploadFiles\<close>. The callback passed to \<open>then\<close> runs when the base path is resolved. In
  the branch with a priority list it calls \<open>uploadInPriorityOrder\<close> and drops the result; in
  the other branch it starts one upload per file, sets up the progress bar (listeners only)
  and calls \<open>Promise.all\<close> on the array of \<open>{upload, promise}\<close> objects, dropping the result
  as well. The callback has no \<open>return\<close>: unless it throws, the promise returned by
  \<open>uploadFiles\<close> is fulfilled with \<open>undefined\<close> when the callback ends; when it throws, as
  \<open>uploadInPriorityOrder\<close> does on its tiers, the promise is rejected with what was thrown.
  The result is the uploads started, the plugin afterwards and the returned promise.
\<close>

definition uploadFiles ::
  "Runtime \<Rightarrow> S3Plugin \<Rightarrow> nat \<Rightarrow> File list \<Rightarrow> (Upload list \<times> S3Plugin) \<times> unit promise" where
  "uploadFiles rt plugin now files =
     (case transformBasePath plugin now of
        (t, Inl e) \<Rightarrow> (([], plugin), (t, Inl e))
      | (t, Inr plugin') \<Rightarrow>
          (case priority (options plugin') of
             Some p \<Rightarrow>
               (case uploadInPriorityOrder plugin' t files of
                  (Inl e, plugin'') \<Rightarrow> (([], plugin''), (t, Inl e))
                | (Inr dropped, plugin'') \<Rightarrow> (([], plugin''), (t, Inr ())))
           | None \<Rightarrow> (uploadFile_map rt plugin' t files, (t, Inr ()))))"

section \<open>s3\_plugin.ts: CloudFront invalidation\<close>

fun distribution_id_truthy :: "distribution_id \<Rightarrow> bool" where
  "distribution_id_truthy (IdString s) = (s \<noteq> [])"
| "distribution_id_truthy (IdArray ids) = True"

text \<open>The identifiers after the normalisation: a value that is not an array is wrapped.\<close>

fun distribution_ids :: "distribution_id \<Rightarrow> string list" where
  "distribution_ids (IdString s) = [s]"
| "distribution_ids (IdArray ids) = ids"

text \<open>
  \<open>invalidateCloudfront\<close>: the requests sent, the plugin afterwards (the identifier field is
  overwritten by the array) and the returned promise, \<open>None\<close> for the \<open>null\<close> of the branch
  without an identifier.
\<close>

definition createInvalidation_request ::
  "Runtime \<Rightarrow> CloudfrontInvalidateOptions \<Rightarrow> nat \<Rightarrow> string \<Rightarrow> InvalidationRequest" where
  "createInvalidation_request rt opts i distributionId =
     \<lparr>Request_DistributionId = distributionId,
      CallerReference = Date_now rt i,
      Paths_Quantity = length (Items opts),
      Paths_Items = Items opts\<rparr>"

definition invalidateCloudfront ::
  "Runtime \<Rightarrow> S3Plugin \<Rightarrow> nat \<Rightarrow> (InvalidationRequest list \<times> S3Plugin) \<times> string list option promise" where
  "invalidateCloudfront rt plugin now =
     (case cloudfrontInvalidateOptions plugin of
        None \<Rightarrow> (([], plugin), promise_resolve now None)
      | Some opts \<Rightarrow>
          (case DistributionId opts of
             None \<Rightarrow> (([], plugin), promise_resolve now None)
           | Some d \<Rightarrow>
               if distribution_id_truthy d then
                 (let ids = distribution_ids d;
                      opts' = opts\<lparr>DistributionId := Some (IdArray ids)\<rparr>;
                      requests = map (\<lambda>(i, distributionId). createInvalidation_request rt opts' i distributionId)
                                   (enumerate 0 ids);
                      cloudfrontInvalidations = map (\<lambda>r. cloudfront_createInvalidation rt r now) requests
                  in ((requests, plugin\<lparr>cloudfrontInvalidateOptions := Some opts'\<rparr>),
                      promise_then (promise_all now cloudfrontInvalidations)
                        (\<lambda>t ids. promise_resolve t (Some ids))))
               else (([], plugin), promise_resolve now None)))"

section \<open>s3\_plugin.ts: construction and the build hook\<close>

datatype html_files = HtmlString string | HtmlArray "string list"

record CdnizerOptions =
  files :: "string list option"
  other_keys :: "string list"

record ConstructorOptions =
  c_include :: "rule option"
  c_exclude :: "rule option"
  c_progress :: "bool option"
  c_basePath :: "string option"
  c_directory :: "string option"
  c_htmlFiles :: "html_files option"
  c_basePathTransform :: "(string \<Rightarrow> nat \<Rightarrow> string promise) option"
  c_cdnizerOptions :: "CdnizerOptions option"
  c_s3UploadOptions :: "string \<rightharpoonup> optionConfig"
  c_cloudfrontInvalidateOptions :: "CloudfrontInvalidateOptions option"
  c_priority :: "ref list option"
  c_regexps :: store

text \<open>
  The constructor (the client configuration \<open>s3Options\<close> is left out: it is only handed to
  the clients). \<open>noCdnizer\<close> holds when \<open>cdnizerOptions\<close> has no key. \<open>c_regexps\<close> is the
  store of the \<open>RegExp\<close> objects that the rules and the priority list refer to.
\<close>

definition S3Plugin_constructor :: "ConstructorOptions \<Rightarrow> S3Plugin" where
  "S3Plugin_constructor opts =
     (let cdnizerOptions = (case c_cdnizerOptions opts of
                              None \<Rightarrow> \<lparr>files = None, other_keys = []\<rparr>
                            | Some c \<Rightarrow> c)
      in \<lparr>isConnected = False,
          uploadOptions = c_s3UploadOptions opts,
          cloudfrontInvalidateOptions = c_cloudfrontInvalidateOptions opts,
          basePathTransform = (case c_basePathTransform opts of
                                 None \<Rightarrow> DEFAULT_TRANSFORM
                               | Some f \<Rightarrow> f),
          options =
            \<lparr>directory = c_directory opts,
             include = c_include opts,
             exclude = c_exclude opts,
             basePath = (case c_basePath opts of
                           None \<Rightarrow> []
                         | Some b \<Rightarrow> if b \<noteq> [] then addTrailingS3Sep b else []),
             priority = c_priority opts,
             htmlFiles = (case c_htmlFiles opts of
                            None \<Rightarrow> None
                          | Some (HtmlString h) \<Rightarrow> Some [h]
                          | Some (HtmlArray hs) \<Rightarrow> Some hs),
             progress = (case c_progress opts of None \<Rightarrow> True | Some b \<Rightarrow> b)\<rparr>,
          noCdnizer = (files cdnizerOptions = None \<and> other_keys cdnizerOptions = []),
          cdnizerOptions_files = (case files cdnizerOptions of None \<Rightarrow> [] | Some fs \<Rightarrow> fs),
          regexps = c_regexps opts\<rparr>)"

text \<open>helpers.ts: \<open>addSeperatorToPath\<close> and \<open>translatePathFromFiles\<close>.\<close>

definition addSeperatorToPath :: "Runtime \<Rightarrow> string \<Rightarrow> string" where
  "addSeperatorToPath rt fPath =
     (if fPath = [] then fPath
      else if last fPath = PATH_SEP rt then fPath else fPath @ [PATH_SEP rt])"

text \<open>\<^verbatim>\<open>s.replace(pattern, '')\<close> with a string pattern: the first occurrence is removed.\<close>

fun remove_first_occurrence :: "string \<Rightarrow> string \<Rightarrow> string" where
  "remove_first_occurrence pattern [] = []"
| "remove_first_occurrence pattern (c # s) =
     (if take (length pattern) (c # s) = pattern then drop (length pattern) (c # s)
      else c # remove_first_occurrence pattern s)"

text \<open>
  \<^verbatim>\<open>.split(PATH_SEP).join(S3_PATH_SEP)\<close>: every occurrence of the platform's separator, one
  character, becomes the storage separator.
\<close>

definition split_join :: "char \<Rightarrow> string \<Rightarrow> string \<Rightarrow> string" where
  "split_join sep joiner s = concat (map (\<lambda>c. if c = sep then joiner else [c]) s)"

definition translatePathFromFiles :: "Runtime \<Rightarrow> string \<Rightarrow> string list \<Rightarrow> File list" where
  "translatePathFromFiles rt rootPath fs =
     map (\<lambda>file. \<lparr>path = file,
                   name = split_join (PATH_SEP rt) S3_PATH_SEP
                            (remove_first_occurrence rootPath file)\<rparr>) fs"

definition getDirectoryFilesRecursive :: "Runtime \<Rightarrow> string \<Rightarrow> nat \<Rightarrow> File list promise" where
  "getDirectoryFilesRecursive rt dir now =
     promise_then (readDir rt dir now) (\<lambda>t fs. promise_resolve t (translatePathFromFiles rt dir fs))"

record Compiler =
  output_path :: "string option"
  output_context :: "string option"

datatype compile_error = RequiredS3UploadOpts string | PluginError error

record Compilation =
  errors :: "compile_error list"
  assets :: "string list"
  outputOptions_path :: string

text \<open>\<^verbatim>\<open>REQUIRED_S3_UP_OPTS.join(', ')\<close>\<close>

fun js_join :: "string \<Rightarrow> string list \<Rightarrow> string" where
  "js_join sep [] = []"
| "js_join sep [x] = x"
| "js_join sep (x # y # ys) = x @ sep @ js_join sep (y # ys)"

definition getAssetFiles :: "Compilation \<Rightarrow> nat \<Rightarrow> File list promise" where
  "getAssetFiles compilation now =
     promise_resolve now
       (map (\<lambda>n. \<lparr>path = outputOptions_path compilation @ ''/'' @ n, name = n\<rparr>) (assets compilation))"

definition addPathToFiles :: "Runtime \<Rightarrow> string list \<Rightarrow> string \<Rightarrow> File list" where
  "addPathToFiles rt fs fPath = map (\<lambda>file. \<lparr>path = path_resolve rt fPath file, name = file\<rparr>) fs"

text \<open>The pattern \<^verbatim>\<open>/\.(html|css)/\<close> of \<open>changeUrls\<close>.\<close>

definition html_css_rx :: rx where
  "html_css_rx =
     Cat (Lit CHR ''.'')
       (Grp (Alt (Cat (Lit CHR ''h'') (Cat (Lit CHR ''t'') (Cat (Lit CHR ''m'') (Lit CHR ''l''))))
                 (Cat (Lit CHR ''c'') (Cat (Lit CHR ''s'') (Lit CHR ''s'')))))"

text \<open>
  \<open>changeUrls\<close>. With \<open>htmlFiles\<close> configured, \<open>path.resolve\<close> is given the directory, which
  \<open>apply\<close> has set; without a directory it throws a \<open>TypeError\<close>.
\<close>

definition changeUrls_allHtml :: "Runtime \<Rightarrow> S3Plugin \<Rightarrow> File list \<Rightarrow> error + File list" where
  "changeUrls_allHtml rt plugin fs =
     (case (case htmlFiles (options plugin) of None \<Rightarrow> [] | Some hs \<Rightarrow> hs) of
        [] \<Rightarrow> Inr fs
      | h # hs \<Rightarrow>
          (case directory (options plugin) of
             None \<Rightarrow> Inl TypeError
           | Some d \<Rightarrow> Inr (addPathToFiles rt (h # hs) d @ fs)))"

definition changeUrls ::
  "Runtime \<Rightarrow> S3Plugin \<Rightarrow> nat \<Rightarrow> File list \<Rightarrow> error + (S3Plugin \<times> File list promise)" where
  "changeUrls rt plugin now fs =
     (if noCdnizer plugin then Inr (plugin, promise_resolve now fs)
      else
        (case changeUrls_allHtml rt plugin fs of
           Inl e \<Rightarrow> Inl e
         | Inr allHtml \<Rightarrow>
             (case partition (\<lambda>file. rx_test html_css_rx (name file)) (lodash_uniq rt allHtml) of
                (cdnizeFiles, otherFiles) \<Rightarrow>
                  Inr (plugin\<lparr>cdnizerOptions_files :=
                                map (\<lambda>file. ''{/,}*'' @ name file @ ''*'') allHtml\<rparr>,
                       promise_all now
                         (map (\<lambda>file. cdnizeHtml rt file now) cdnizeFiles @
                          map (promise_resolve now) otherFiles)))))"

text \<open>
  \<open>handleFiles\<close>: rewrite, filter, upload, invalidate, each stage started when the promise
  of the stage before is fulfilled. The result of a pass collects what was sent.
\<close>

record Pass =
  pass_plugin :: S3Plugin
  pass_uploads :: "Upload list"
  pass_invalidations :: "InvalidationRequest list"
  pass_promise :: "string list option promise"

definition handleFiles :: "Runtime \<Rightarrow> S3Plugin \<Rightarrow> nat \<Rightarrow> File list \<Rightarrow> Pass" where
  "handleFiles rt plugin now fs =
     (case changeUrls rt plugin now fs of
        Inl e \<Rightarrow>
          \<lparr>pass_plugin = plugin, pass_uploads = [], pass_invalidations = [], pass_promise = (now, Inl e)\<rparr>
      | Inr (plugin1, (t1, Inl e)) \<Rightarrow>
          \<lparr>pass_plugin = plugin1, pass_uploads = [], pass_invalidations = [], pass_promise = (t1, Inl e)\<rparr>
      | Inr (plugin1, (t1, Inr fs1)) \<Rightarrow>
          (case filterAllowedFiles (RegExp_new rt) (options plugin1) fs1 (regexps plugin1) of
             (Inl e, st') \<Rightarrow>
               \<lparr>pass_plugin = plugin1\<lparr>regexps := st'\<rparr>, pass_uploads = [], pass_invalidations = [],
                pass_promise = (t1, Inl e)\<rparr>
           | (Inr fs2, st') \<Rightarrow>
               (case uploadFiles rt (plugin1\<lparr>regexps := st'\<rparr>) t1 fs2 of
                  ((ups, plugin2), (t2, Inl e)) \<Rightarrow>
                    \<lparr>pass_plugin = plugin2, pass_uploads = ups, pass_invalidations = [],
                     pass_promise = (max t1 t2, Inl e)\<rparr>
                | ((ups, plugin2), (t2, Inr u)) \<Rightarrow>
                    (case invalidateCloudfront rt plugin2 (max t1 t2) of
                       ((reqs, plugin3), (t3, r)) \<Rightarrow>
                         \<lparr>pass_plugin = plugin3, pass_uploads = ups, pass_invalidations = reqs,
                          pass_promise = (max (max t1 t2) t3, r)\<rparr>))))"

text \<open>
  \<open>apply\<close> connects, computes the two flags that the hook closes over and sets the
  directory; the result is the plugin and the flags.
\<close>

record DoneHook =
  hook_plugin :: S3Plugin
  isDirectoryUpload :: bool
  hasRequiredUploadOpts :: bool

fun optionConfig_truthy :: "optionConfig option \<Rightarrow> bool" where
  "optionConfig_truthy None = False"
| "optionConfig_truthy (Some (Constant v)) = truthy v"
| "optionConfig_truthy (Some (Computed f)) = True"

fun first_truthy :: "string option list \<Rightarrow> string \<Rightarrow> string" where
  "first_truthy [] d = d"
| "first_truthy (None # xs) d = first_truthy xs d"
| "first_truthy (Some s # xs) d = (if s \<noteq> [] then s else first_truthy xs d)"

definition connect :: "S3Plugin \<Rightarrow> S3Plugin" where
  "connect plugin = (if isConnected plugin then plugin else plugin\<lparr>isConnected := True\<rparr>)"

definition apply_plugin :: "S3Plugin \<Rightarrow> Compiler \<Rightarrow> DoneHook" where
  "apply_plugin plugin0 compiler =
     (let plugin = connect plugin0
      in \<lparr>hook_plugin =
            plugin\<lparr>options := (options plugin)
              \<lparr>directory :=
                 Some (first_truthy
                         [directory (options plugin), output_path compiler, output_context compiler]
                         ''.'')\<rparr>\<rparr>,
          isDirectoryUpload =
            (case directory (options plugin) of None \<Rightarrow> False | Some d \<Rightarrow> d \<noteq> []),
          hasRequiredUploadOpts =
            list_all (\<lambda>type. optionConfig_truthy (uploadOptions plugin type)) REQUIRED_S3_UP_OPTS\<rparr>)"

text \<open>
  The callback tapped on \<open>done\<close>. Without the required upload options it records the error
  and returns. Otherwise it starts the chain (listing, \<open>handleFiles\<close>, and \<open>handleErrors\<close> on
  a rejection) without awaiting it. The result is the compilation and the pass once the
  chain has settled; \<open>pass_promise\<close> is the promise of the chain (in the first branch,
  where no chain is started, a promise settled at once).
\<close>

definition handleErrors :: "error \<Rightarrow> Compilation \<Rightarrow> Compilation" where
  "handleErrors e compilation = compilation\<lparr>errors := errors compilation @ [PluginError e]\<rparr>"

definition done_files :: "Runtime \<Rightarrow> DoneHook \<Rightarrow> Compilation \<Rightarrow> nat \<Rightarrow> File list promise" where
  "done_files rt hook compilation now =
     (if isDirectoryUpload hook then
        (case directory (options (hook_plugin hook)) of
           None \<Rightarrow> (now, Inl TypeError)
         | Some d \<Rightarrow> getDirectoryFilesRecursive rt (addSeperatorToPath rt d) now)
      else getAssetFiles compilation now)"

definition done_hook :: "Runtime \<Rightarrow> DoneHook \<Rightarrow> Compilation \<Rightarrow> nat \<Rightarrow> Compilation \<times> Pass" where
  "done_hook rt hook compilation now =
     (if \<not> hasRequiredUploadOpts hook then
        (compilation\<lparr>errors := errors compilation @
            [RequiredS3UploadOpts (''S3Plugin-RequiredS3UploadOpts: '' @ js_join '', '' REQUIRED_S3_UP_OPTS)]\<rparr>,
         \<lparr>pass_plugin = hook_plugin hook, pass_uploads = [], pass_invalidations = [],
          pass_promise = promise_resolve now None\<rparr>)
      else
        (case done_files rt hook compilation now of
           (t, Inl e) \<Rightarrow>
             (handleErrors e compilation,
              \<lparr>pass_plugin = hook_plugin hook, pass_uploads = [], pass_invalidations = [],
               pass_promise = (t, Inl e)\<rparr>)
         | (t, Inr fs) \<Rightarrow>
             (let pass = handleFiles rt (hook_plugin hook) t fs
              in (case snd (pass_promise pass) of
                    Inl e \<Rightarrow> (handleErrors e compilation, pass)
                  | Inr r \<Rightarrow> (compilation, pass)))))"

section \<open>Auxiliary functions of the statements\<close>

text \<open>
  The effect of \<open>addTrailingS3Sep\<close> on a non-empty string, as a direct recursion: a separator
  that stands before \<open>?\<close>, \<open>#\<close> or the end is kept, otherwise one is put before the first
  \<open>?\<close> or \<open>#\<close>, or at the end. It is proved equal to the replacement below.
\<close>

fun put_sep :: "string \<Rightarrow> string" where
  "put_sep [] = ''/''"
| "put_sep (c # cs) =
     (if c = CHR ''/'' \<and> (case cs of [] \<Rightarrow> True | d # ds \<Rightarrow> d = CHR ''?'' \<or> d = CHR ''#'') then c # cs
      else if c = CHR ''?'' \<or> c = CHR ''#'' then CHR ''/'' # c # cs
      else c # put_sep cs)"

text \<open>The keys of the requests that a call of \<open>uploadFiles\<close> has sent, in order.\<close>

definition uploaded_keys :: "(Upload list \<times> S3Plugin) \<times> unit promise \<Rightarrow> jsval option list" where
  "uploaded_keys r = map (\<lambda>u. upload u ''Key'') (fst (fst r))"

text \<open>
  The pattern of an object matches a subject when it matches from some index of it; an
  object is flagless when it carries neither the global nor the sticky flag, and a rule is
  when every \<open>RegExp\<close> in it is.
\<close>

definition pattern_matches :: "RegExp \<Rightarrow> string \<Rightarrow> bool" where
  "pattern_matches R S = list_ex (\<lambda>i. matcher R S i \<noteq> None) [0..<Suc (length S)]"

definition flagless :: "RegExp \<Rightarrow> bool" where
  "flagless R = (\<not> global R \<and> \<not> sticky R)"

fun rule_flagless :: "store \<Rightarrow> rule \<Rightarrow> bool" where
  "rule_flagless st (RuleRegExp r) = flagless (st r)"
| "rule_flagless st (RuleArray rs) = list_all (rule_flagless st) rs"
| "rule_flagless st (RuleFunction f) = True"
| "rule_flagless st (RuleString p) = True"
| "rule_flagless st (RuleOther v) = True"

text \<open>
  The results of the members of a rule list when each is evaluated in turn, on the store
  that the one before has left, none skipped.
\<close>

fun member_results ::
  "(string \<Rightarrow> (string \<Rightarrow> nat \<Rightarrow> nat option) option) \<Rightarrow> rule list \<Rightarrow> string \<Rightarrow> store \<Rightarrow> (error + bool) list" where
  "member_results newRegExp [] subject st = []"
| "member_results newRegExp (r # rs) subject st =
     fst (testRule newRegExp r subject st) #
     member_results newRegExp rs subject (snd (testRule newRegExp r subject st))"

text \<open>
  The policy of the specification for one file name: the include rule passes when none is
  configured or the configured one matches; the exclude rule matches when one is configured
  and matches. A rule is configured when the option is present and truthy.
\<close>

definition spec_include_passes ::
  "(string \<Rightarrow> (string \<Rightarrow> nat \<Rightarrow> nat option) option) \<Rightarrow> PluginOptions \<Rightarrow> store \<Rightarrow> string \<Rightarrow> bool" where
  "spec_include_passes newRegExp opts st file =
     (case include opts of
        None \<Rightarrow> True
      | Some r \<Rightarrow> if rule_truthy r then fst (testRule newRegExp r file st) = Inr True else True)"

definition spec_exclude_matches ::
  "(string \<Rightarrow> (string \<Rightarrow> nat \<Rightarrow> nat option) option) \<Rightarrow> PluginOptions \<Rightarrow> store \<Rightarrow> string \<Rightarrow> bool" where
  "spec_exclude_matches newRegExp opts st file =
     (case exclude opts of
        None \<Rightarrow> False
      | Some r \<Rightarrow> if rule_truthy r then fst (testRule newRegExp r file st) = Inr True else False)"

text \<open>
  A configured rule is evaluated without an exception on a name, and it is flagless.
\<close>

definition rule_returns ::
  "(string \<Rightarrow> (string \<Rightarrow> nat \<Rightarrow> nat option) option) \<Rightarrow> store \<Rightarrow> rule option \<Rightarrow> string \<Rightarrow> bool" where
  "rule_returns newRegExp st configured file =
     (case configured of
        None \<Rightarrow> True
      | Some r \<Rightarrow> if rule_truthy r then \<not> isl (fst (testRule newRegExp r file st)) else True)"

definition configured_flagless :: "store \<Rightarrow> rule option \<Rightarrow> bool" where
  "configured_flagless st configured =
     (case configured of
        None \<Rightarrow> True
      | Some r \<Rightarrow> if rule_truthy r then rule_flagless st r else True)"

section \<open>Concrete configurations\<close>

text \<open>
  The patterns \<^verbatim>\<open>/\.css$/\<close>, \<^verbatim>\<open>/css$/\<close> and \<^verbatim>\<open>/js/\<close>; the object that a pattern literal with
  given flags creates; the store whose every object is \<^verbatim>\<open>/\.css$/\<close>, and the one whose every
  object is \<^verbatim>\<open>/\.css$/g\<close>.
\<close>

definition css_rx :: rx where
  "css_rx =
     Cat (Lit CHR ''.'') (Cat (Lit CHR ''c'') (Cat (Lit CHR ''s'') (Cat (Lit CHR ''s'') Eol)))"

definition css_end_rx :: rx where
  "css_end_rx = Cat (Lit CHR ''c'') (Cat (Lit CHR ''s'') (Cat (Lit CHR ''s'') Eol))"

definition js_rx :: rx where
  "js_rx = Cat (Lit CHR ''j'') (Lit CHR ''s'')"

definition RegExp_literal :: "rx \<Rightarrow> bool \<Rightarrow> bool \<Rightarrow> RegExp" where
  "RegExp_literal r g y = \<lparr>matcher = rx_matcher r, global = g, sticky = y, lastIndex = 0\<rparr>"

definition css_store :: store where
  "css_store = (\<lambda>r. RegExp_literal css_rx False False)"

definition css_g_store :: store where
  "css_g_store = (\<lambda>r. RegExp_literal css_rx True False)"

text \<open>
  A constructor that compiles the strings \<open>css$\<close> and \<open>js\<close> and refuses every other string.
\<close>

definition example_RegExp_new :: "string \<Rightarrow> (string \<Rightarrow> nat \<Rightarrow> nat option) option" where
  "example_RegExp_new p =
     (if p = ''css$'' then Some (rx_matcher css_end_rx)
      else if p = ''js'' then Some (rx_matcher js_rx)
      else None)"

text \<open>
  A runtime in which every request succeeds one tick after it is sent, one in which the
  storage service refuses every upload, and one in which the invalidation of the
  distribution \<open>E2\<close> fails.
\<close>

definition example_runtime :: Runtime where
  "example_runtime =
     \<lparr>RegExp_new = example_RegExp_new,
      mime_getType = (\<lambda>n. None),
      fs_createReadStream = (\<lambda>p. JObject 0),
      s3_upload = (\<lambda>request now. (now + 1, Inr JUndefined)),
      cloudfront_createInvalidation = (\<lambda>r now. (now + 1, Inr ''I1'')),
      Date_now = (\<lambda>i. 1000),
      PATH_SEP = CHR ''/'',
      path_resolve = (\<lambda>a b. a @ ''/'' @ b),
      readDir = (\<lambda>d now. (now + 1, Inr [])),
      lodash_uniq = (\<lambda>fs. fs),
      cdnizeHtml = (\<lambda>f now. (now + 1, Inr f))\<rparr>"

definition failing_runtime :: Runtime where
  "failing_runtime =
     example_runtime\<lparr>s3_upload := (\<lambda>request now. (now + 1, Inl (UserError ''AccessDenied'')))\<rparr>"

definition selective_runtime :: Runtime where
  "selective_runtime =
     example_runtime
       \<lparr>cloudfront_createInvalidation :=
          (\<lambda>r now. if Request_DistributionId r = ''E2''
                    then (now + 2, Inl (UserError ''NoSuchDistribution''))
                    else (now + 1, Inr (''I-'' @ Request_DistributionId r)))\<rparr>"

definition example_options :: ConstructorOptions where
  "example_options =
     \<lparr>c_include = None, c_exclude = None, c_progress = None, c_basePath = None,
      c_directory = None, c_htmlFiles = None, c_basePathTransform = None,
      c_cdnizerOptions = None,
      c_s3UploadOptions = [''Bucket'' \<mapsto> Constant (JStr ''bucket'')],
      c_cloudfrontInvalidateOptions = None, c_priority = None, c_regexps = css_store\<rparr>"

definition file_a :: File where
  "file_a = \<lparr>path = ''/out/a.js'', name = ''a.js''\<rparr>"

definition file_b :: File where
  "file_b = \<lparr>path = ''/out/b.css'', name = ''b.css''\<rparr>"

definition file_x :: File where
  "file_x = \<lparr>path = ''/out/x.js'', name = ''/x.js''\<rparr>"

definition file_ds :: File where
  "file_ds = \<lparr>path = ''/out/.DS_Store'', name = ''.DS_Store''\<rparr>"

definition file_css_a :: File where
  "file_css_a = \<lparr>path = ''/out/a.css'', name = ''a.css''\<rparr>"

definition file_css_c :: File where
  "file_css_c = \<lparr>path = ''/out/c.css'', name = ''c.css''\<rparr>"

definition file_txt :: File where
  "file_txt = \<lparr>path = ''/out/x.txt'', name = ''x.txt''\<rparr>"

definition example_compiler :: Compiler where
  "example_compiler = \<lparr>output_path = Some ''/out'', output_context = None\<rparr>"

definition example_compilation :: Compilation where
  "example_compilation = \<lparr>errors = [], assets = [''a.js''], outputOptions_path = ''/out''\<rparr>"

definition plain_options :: PluginOptions where
  "plain_options =
     \<lparr>directory = None, include = None, exclude = None,
      basePath = [], priority = None, htmlFiles = None, progress = True\<rparr>"

text \<open>
  Options whose include rule is a function that refuses \<open>x.txt\<close> and whose exclude rule is
  the pattern at reference 0; options whose include rule is the string \<open>js\<close>; options whose
  include rule is the pattern at reference 0; options whose one priority pattern is the one
  at reference 0.
\<close>

definition filter_options :: PluginOptions where
  "filter_options =
     plain_options
       \<lparr>include := Some (RuleFunction (\<lambda>n. JBool (n \<noteq> ''x.txt''))),
        exclude := Some (RuleRegExp 0)\<rparr>"

definition string_filter_options :: PluginOptions where
  "string_filter_options = plain_options\<lparr>include := Some (RuleString ''js'')\<rparr>"

definition pattern_filter_options :: PluginOptions where
  "pattern_filter_options = plain_options\<lparr>include := Some (RuleRegExp 0)\<rparr>"

definition priority_options :: PluginOptions where
  "priority_options = plain_options\<lparr>priority := Some [0]\<rparr>"

definition override_plugin :: S3Plugin where
  "override_plugin =
     (S3Plugin_constructor example_options)
       \<lparr>uploadOptions :=
          [''Bucket'' \<mapsto> Constant (JStr ''bucket''),
           ''Key'' \<mapsto> Constant (JStr ''forced/key''),
           ''Body'' \<mapsto> Computed (\<lambda>n p. JStr (n @ '' from '' @ p)),
           ''ACL'' \<mapsto> Constant (JStr ''private'')]\<rparr>"

definition invalidating_plugin :: S3Plugin where
  "invalidating_plugin =
     (S3Plugin_constructor example_options)
       \<lparr>cloudfrontInvalidateOptions := Some \<lparr>DistributionId = Some (IdString ''E1''), Items = [''/*'']\<rparr>\<rparr>"

definition array_invalidating_plugin :: S3Plugin where
  "array_invalidating_plugin =
     (S3Plugin_constructor example_options)
       \<lparr>cloudfrontInvalidateOptions :=
          Some \<lparr>DistributionId = Some (IdArray [''E1'', ''E2'', ''E3'']), Items = [''/*'', ''/index.html'']\<rparr>\<rparr>"

section \<open>Lemmas on the regular expressions\<close>

lemma rx_search_hit:
  "rx_run r (s, None) = m # ms \<Longrightarrow> rx_search r pre s = Some (pre, m)"
  by (subst rx_search.simps) simp

lemma rx_search_miss:
  "rx_run r (c # t, None) = [] \<Longrightarrow> rx_search r pre (c # t) = rx_search r (pre @ [c]) t"
  by (subst rx_search.simps) simp

lemma rx_search_Nil:
  "rx_search r pre [] = (case rx_run r ([], None) of m # ms \<Rightarrow> Some (pre, m) | [] \<Rightarrow> None)"
  by (subst rx_search.simps) (simp split: list.splits)

lemma rx_search_Cons:
  "rx_search r pre (c # t) =
     (case rx_run r (c # t, None) of m # ms \<Rightarrow> Some (pre, m) | [] \<Rightarrow> rx_search r (pre @ [c]) t)"
  by (subst rx_search.simps) (simp split: list.splits)

lemmas rx_eval = rx_test_def rx_search_Nil rx_search_Cons

lemma rx_run_trailing_sep:
  "rx_run trailing_sep_rx (s, None) =
     (case s of
        [] \<Rightarrow> [([], Some [])]
      | c # cs \<Rightarrow>
          if c = CHR ''/'' then
            (case cs of
               [] \<Rightarrow> [([], Some [])]
             | d # ds \<Rightarrow> if d = CHR ''?'' \<or> d = CHR ''#'' then [(ds, Some [d])] else [])
          else if c = CHR ''?'' \<or> c = CHR ''#'' then [(cs, Some [c])] else [])"
  by (auto simp: trailing_sep_rx_def split: list.splits)

lemma rx_search_trailing_sep:
  "\<exists>p rest g. rx_search trailing_sep_rx pre s = Some (p, (rest, g)) \<and>
      p @ ''/'' @ (case g of None \<Rightarrow> [] | Some x \<Rightarrow> x) @ rest = pre @ put_sep s"
proof (induction s arbitrary: pre)
  case Nil
  have "rx_search trailing_sep_rx pre [] = Some (pre, ([], Some []))"
    by (rule rx_search_hit) (simp add: rx_run_trailing_sep)
  then show ?case by simp
next
  case (Cons c cs)
  show ?case
  proof (cases "rx_run trailing_sep_rx (c # cs, None)")
    case Nil
    then have "rx_search trailing_sep_rx pre (c # cs) = rx_search trailing_sep_rx (pre @ [c]) cs"
      by (rule rx_search_miss)
    moreover from Nil have "put_sep (c # cs) = c # put_sep cs"
      by (cases cs) (simp_all add: rx_run_trailing_sep split: if_splits)
    ultimately show ?thesis using Cons.IH[of "pre @ [c]"] by simp
  next
    case (Cons m ms)
    then have "rx_search trailing_sep_rx pre (c # cs) = Some (pre, m)"
      by (rule rx_search_hit)
    moreover from Cons
    have "''/'' @ (case snd m of None \<Rightarrow> [] | Some x \<Rightarrow> x) @ fst m = put_sep (c # cs)"
      by (cases cs) (auto simp: rx_run_trailing_sep split: if_splits)
    ultimately show ?thesis by (cases m) simp
  qed
qed

lemma addTrailingS3Sep_Nil: "addTrailingS3Sep [] = []"
  by (simp add: addTrailingS3Sep_def)

lemma addTrailingS3Sep_put_sep: "s \<noteq> [] \<Longrightarrow> addTrailingS3Sep s = put_sep s"
  using rx_search_trailing_sep[of "[]" s] by (auto simp: addTrailingS3Sep_def)

lemma put_sep_idem: "put_sep (put_sep s) = put_sep s"
proof (induction s rule: put_sep.induct)
  case 1
  show ?case by simp
next
  case (2 c cs)
  show ?case
  proof (cases cs)
    case Nil
    then show ?thesis by simp
  next
    case (Cons d ds)
    with 2 show ?thesis by (cases "put_sep (d # ds)") (simp_all split: if_splits)
  qed
qed

lemma put_sep_not_Nil: "put_sep s \<noteq> []"
  by (cases s) auto

lemma addTrailingS3Sep_idem: "addTrailingS3Sep (addTrailingS3Sep s) = addTrailingS3Sep s"
proof (cases "s = []")
  case True
  then show ?thesis by (simp add: addTrailingS3Sep_Nil)
next
  case False
  then show ?thesis
    by (simp add: addTrailingS3Sep_put_sep put_sep_not_Nil put_sep_idem)
qed

text \<open>
  C9: \<open>addTrailingS3Sep\<close> maps \<open>test\<close> to \<open>test/\<close>, applying it twice gives the same as
  applying it once, for every string, and the empty string is returned as it is.
\<close>

theorem addTrailingS3Sep_properties:
  "addTrailingS3Sep ''test'' = ''test/''
   \<and> addTrailingS3Sep (addTrailingS3Sep s) = addTrailingS3Sep s
   \<and> addTrailingS3Sep [] = []"
  by (simp add: addTrailingS3Sep_idem addTrailingS3Sep_Nil addTrailingS3Sep_put_sep)

section \<open>Lemmas on RegExp objects\<close>

lemma scan_iff:
  "(scan m i rest \<noteq> None) = list_ex (\<lambda>j. m j \<noteq> None) [i..<Suc (i + length rest)]"
proof (induction rest arbitrary: i)
  case Nil
  show ?case by simp
next
  case (Cons c rest)
  have "[i..<Suc (i + length (c # rest))] = i # [Suc i..<Suc (Suc i + length rest)]"
    by (simp add: upt_conv_Cons del: upt_Suc)
  then show ?case
    using Cons.IH[of "Suc i"] by (auto split: option.splits)
qed

lemma RegExpBuiltinExec_flagless:
  "flagless R \<Longrightarrow> (RegExpBuiltinExec R S \<noteq> None) = pattern_matches R S"
  using scan_iff[of "matcher R S" 0 S]
  by (simp add: RegExpBuiltinExec_def flagless_def pattern_matches_def)

lemma RegExp_test_flagless: "flagless R \<Longrightarrow> RegExp_test R S = (pattern_matches R S, R)"
  using RegExpBuiltinExec_flagless[of R S]
  by (cases "RegExpBuiltinExec R S") (auto simp: RegExp_test_def flagless_def)

lemma RegExp_test_result: "fst (RegExp_test R S) = (RegExpBuiltinExec R S \<noteq> None)"
  by (cases "RegExpBuiltinExec R S") (simp_all add: RegExp_test_def)

lemma RegExp_test_global:
  "global R \<Longrightarrow> \<not> sticky R \<Longrightarrow>
   fst (RegExp_test R S) = list_ex (\<lambda>i. matcher R S i \<noteq> None) [lastIndex R..<Suc (length S)]"
proof (cases "lastIndex R > length S")
  case True
  assume "global R" "\<not> sticky R"
  with True show ?thesis
    by (simp add: RegExp_test_result RegExpBuiltinExec_def Let_def)
next
  case False
  assume "global R" "\<not> sticky R"
  with False show ?thesis
    using scan_iff[of "matcher R S" "lastIndex R" "drop (lastIndex R) S"]
    by (simp add: RegExp_test_result RegExpBuiltinExec_def Let_def)
qed

lemma RegExp_test_sticky:
  "sticky R \<Longrightarrow>
   fst (RegExp_test R S) = (lastIndex R \<le> length S \<and> matcher R S (lastIndex R) \<noteq> None)"
  by (auto simp: RegExp_test_result RegExpBuiltinExec_def Let_def)

text \<open>
  The search of a pattern literal (\<open>rx_test\<close>) is the test of the flagless object of the
  same pattern.
\<close>

lemma rx_search_scan:
  "(rx_search r pre s \<noteq> None) = (scan (rx_matcher r (pre @ s)) (length pre) s \<noteq> None)"
proof (induction s arbitrary: pre)
  case Nil
  show ?case by (simp add: rx_search_Nil rx_matcher_def split: list.splits)
next
  case (Cons c s)
  show ?case
    using Cons.IH[of "pre @ [c]"]
    by (simp add: rx_search_Cons rx_matcher_def split: list.splits)
qed

lemma rx_test_RegExp_test: "rx_test r s = fst (RegExp_test (RegExp_literal r False False) s)"
  using rx_search_scan[of r "[]" s]
  by (simp add: rx_test_def RegExp_test_result RegExpBuiltinExec_def RegExp_literal_def)

section \<open>Rules\<close>

lemma testRule_RegExp:
  "fst (testRule nr (RuleRegExp r) s st) = Inr (fst (RegExp_test (st r) s))"
  by (simp split: prod.splits)

lemma testRule_flagless:
  "rule_flagless st r \<Longrightarrow> snd (testRule nr r s st) = st"
  "list_all (rule_flagless st) rs \<Longrightarrow> snd (testRule_every nr rs s st) = st"
proof (induction nr r s st and nr rs s st rule: testRule_testRule_every.induct)
  case (1 newRegExp r subject st)
  then show ?case by (simp add: RegExp_test_flagless)
next
  case (4 newRegExp p subject st)
  then show ?case by (simp split: option.splits)
next
  case (7 newRegExp condition rs subject st)
  from 7 have c: "snd (testRule newRegExp condition subject st) = st" by simp
  show ?case
  proof (cases "testRule newRegExp condition subject st")
    case (Pair x st')
    with c have st': "st' = st" by simp
    show ?thesis
    proof (cases x)
      case (Inl e)
      with Pair st' show ?thesis by simp
    next
      case (Inr b)
      with Pair st' 7 show ?thesis by (cases b) simp_all
    qed
  qed
qed simp_all

lemma testRule_every_members:
  "list_all (\<lambda>x. \<not> isl x) (member_results nr rs s st) \<Longrightarrow>
   fst (testRule_every nr rs s st) = Inr (list_all (\<lambda>x. x = Inr True) (member_results nr rs s st))"
proof (induction rs arbitrary: st)
  case Nil
  show ?case by simp
next
  case (Cons r rs)
  obtain x st' where t: "testRule nr r s st = (x, st')" by (cases "testRule nr r s st")
  with Cons.prems obtain b where b: "x = Inr b" by (cases x) simp_all
  from Cons.prems t have rest: "list_all (\<lambda>x. \<not> isl x) (member_results nr rs s st')" by simp
  show ?case
    using t b Cons.IH[OF rest] by (cases b) simp_all
qed

lemma member_results_flagless:
  "list_all (rule_flagless st) rs \<Longrightarrow>
   member_results nr rs s st = map (\<lambda>r. fst (testRule nr r s st)) rs"
  by (induction rs) (simp_all add: testRule_flagless)

text \<open>
  C6: \<open>testRule\<close> on a \<open>RegExp\<close> gives the result of the object's test of the subject: whether
  the pattern matches from some index for a flagless object, from some index not before
  \<open>lastIndex\<close> for a global one, at \<open>lastIndex\<close> for a sticky one. On a string it gives
  whether the pattern compiled from the string matches from some index. On a function it
  gives the result coerced to a boolean: false for \<open>undefined\<close>, \<open>null\<close>, \<open>false\<close>, 0 and the
  empty string, true for every other value. On a list whose members all return it gives
  the conjunction of the results of the members, which for flagless rules are the results
  of the members on their own. On any other shape it throws the invalid-rule error.
\<close>

theorem testRule_shapes:
  "(flagless (st r) \<longrightarrow> testRule nr (RuleRegExp r) s st = (Inr (pattern_matches (st r) s), st))
   \<and> (global (st r) \<and> \<not> sticky (st r) \<longrightarrow>
        fst (testRule nr (RuleRegExp r) s st) =
          Inr (list_ex (\<lambda>i. matcher (st r) s i \<noteq> None) [lastIndex (st r)..<Suc (length s)]))
   \<and> (sticky (st r) \<longrightarrow>
        fst (testRule nr (RuleRegExp r) s st) =
          Inr (lastIndex (st r) \<le> length s \<and> matcher (st r) s (lastIndex (st r)) \<noteq> None))
   \<and> (nr p = Some m \<longrightarrow>
        testRule nr (RuleString p) s st = (Inr (list_ex (\<lambda>i. m s i \<noteq> None) [0..<Suc (length s)]), st))
   \<and> testRule nr (RuleFunction f) s st =
        (Inr (case f s of
                JUndefined \<Rightarrow> False
              | JNull \<Rightarrow> False
              | JBool b \<Rightarrow> b
              | JNum n \<Rightarrow> n \<noteq> 0
              | JStr x \<Rightarrow> x \<noteq> []
              | JObject h \<Rightarrow> True), st)
   \<and> (list_all (\<lambda>x. \<not> isl x) (member_results nr rs s st) \<longrightarrow>
        fst (testRule nr (RuleArray rs) s st) =
          Inr (list_all (\<lambda>x. x = Inr True) (member_results nr rs s st)))
   \<and> (list_all (rule_flagless st) rs \<longrightarrow>
        member_results nr rs s st = map (\<lambda>r. fst (testRule nr r s st)) rs)
   \<and> testRule nr (RuleOther v) s st = (Inl InvalidRule, st)"
proof (intro conjI impI)
  assume "flagless (st r)"
  then show "testRule nr (RuleRegExp r) s st = (Inr (pattern_matches (st r) s), st)"
    by (simp add: RegExp_test_flagless)
next
  assume "global (st r) \<and> \<not> sticky (st r)"
  then have "global (st r)" "\<not> sticky (st r)" by simp_all
  then show "fst (testRule nr (RuleRegExp r) s st) =
          Inr (list_ex (\<lambda>i. matcher (st r) s i \<noteq> None) [lastIndex (st r)..<Suc (length s)])"
    by (simp add: testRule_RegExp RegExp_test_global del: upt_Suc testRule.simps)
next
  assume "sticky (st r)"
  then show "fst (testRule nr (RuleRegExp r) s st) =
          Inr (lastIndex (st r) \<le> length s \<and> matcher (st r) s (lastIndex (st r)) \<noteq> None)"
    by (simp add: testRule_RegExp RegExp_test_sticky del: testRule.simps)
next
  assume "nr p = Some m"
  then show "testRule nr (RuleString p) s st = (Inr (list_ex (\<lambda>i. m s i \<noteq> None) [0..<Suc (length s)]), st)"
    using RegExp_test_flagless[of "\<lparr>matcher = m, global = False, sticky = False, lastIndex = 0\<rparr>" s]
    by (simp add: flagless_def pattern_matches_def)
next
  show "testRule nr (RuleFunction f) s st =
        (Inr (case f s of
                JUndefined \<Rightarrow> False
              | JNull \<Rightarrow> False
              | JBool b \<Rightarrow> b
              | JNum n \<Rightarrow> n \<noteq> 0
              | JStr x \<Rightarrow> x \<noteq> []
              | JObject h \<Rightarrow> True), st)"
    by (cases "f s") simp_all
next
  assume "list_all (\<lambda>x. \<not> isl x) (member_results nr rs s st)"
  then show "fst (testRule nr (RuleArray rs) s st) =
          Inr (list_all (\<lambda>x. x = Inr True) (member_results nr rs s st))"
    by (simp add: testRule_every_members)
next
  assume "list_all (rule_flagless st) rs"
  then show "member_results nr rs s st = map (\<lambda>r. fst (testRule nr r s st)) rs"
    by (rule member_results_flagless)
next
  show "testRule nr (RuleOther v) s st = (Inl InvalidRule, st)" by simp
qed

lemma pattern_matches_literal: "pattern_matches (RegExp_literal r False False) s = rx_test r s"
  using RegExp_test_flagless[of "RegExp_literal r False False" s] rx_test_RegExp_test[of r s]
  by (simp add: flagless_def RegExp_literal_def)

lemma list_ex_rx_matcher:
  "list_ex (\<lambda>i. rx_matcher r s i \<noteq> None) [0..<Suc (length s)] = rx_test r s"
  using pattern_matches_literal[of r s]
  by (simp add: pattern_matches_def RegExp_literal_def)

lemma rx_test_css_b: "rx_test css_rx ''b.css''"
  by (simp add: rx_eval css_rx_def)

lemma rx_test_css_a: "\<not> rx_test css_rx ''a.js''"
  by (simp add: rx_eval css_rx_def)

lemma rx_test_css_end_b: "rx_test css_end_rx ''b.css''"
  by (simp add: rx_eval css_end_rx_def)

lemma rx_test_js_b: "\<not> rx_test js_rx ''b.css''"
  by (simp add: rx_eval js_rx_def)

lemma rx_test_js_a: "rx_test js_rx ''a.js''"
  by (simp add: rx_eval js_rx_def)

text \<open>The global object \<^verbatim>\<open>/\.css$/g\<close> on a name of five characters that ends in \<open>.css\<close>.\<close>

lemma css_g_test_start:
  "RegExp_test (RegExp_literal css_rx True False) [c, CHR ''.'', CHR ''c'', CHR ''s'', CHR ''s''] =
     (True, (RegExp_literal css_rx True False)\<lparr>lastIndex := 5\<rparr>)"
  by (simp add: RegExp_test_def RegExpBuiltinExec_def RegExp_literal_def rx_matcher_def css_rx_def Let_def)

lemma css_g_test_end:
  "RegExp_test ((RegExp_literal css_rx True False)\<lparr>lastIndex := 5\<rparr>) [c, CHR ''.'', CHR ''c'', CHR ''s'', CHR ''s''] =
     (False, (RegExp_literal css_rx True False)\<lparr>lastIndex := 0\<rparr>)"
  by (simp add: RegExp_test_def RegExpBuiltinExec_def RegExp_literal_def rx_matcher_def css_rx_def Let_def)

lemma css_g_reset: "(RegExp_literal css_rx True False)\<lparr>lastIndex := 0\<rparr> = RegExp_literal css_rx True False"
  by (simp add: RegExp_literal_def)

theorem testRule_shapes_witness:
  "testRule example_RegExp_new (RuleRegExp 0) ''b.css'' css_store = (Inr True, css_store)
   \<and> testRule example_RegExp_new (RuleRegExp 0) ''a.js'' css_store = (Inr False, css_store)
   \<and> fst (testRule example_RegExp_new (RuleRegExp 0) ''b.css'' css_g_store) = Inr True
   \<and> fst (testRule example_RegExp_new (RuleRegExp 0) ''b.css''
          (css_g_store(0 := (RegExp_literal css_rx True False)\<lparr>lastIndex := 5\<rparr>))) = Inr False
   \<and> fst (testRule example_RegExp_new (RuleRegExp 0) ''b.css'' (\<lambda>r. RegExp_literal css_rx False True)) = Inr False
   \<and> testRule example_RegExp_new (RuleString ''css$'') ''b.css'' css_store = (Inr True, css_store)
   \<and> testRule example_RegExp_new (RuleString ''js'') ''b.css'' css_store = (Inr False, css_store)
   \<and> testRule example_RegExp_new (RuleFunction (\<lambda>s. JNum 0)) ''a.js'' css_store = (Inr False, css_store)
   \<and> testRule example_RegExp_new (RuleFunction (\<lambda>s. JStr [])) ''a.js'' css_store = (Inr False, css_store)
   \<and> testRule example_RegExp_new (RuleFunction (\<lambda>s. JNull)) ''a.js'' css_store = (Inr False, css_store)
   \<and> testRule example_RegExp_new (RuleFunction (\<lambda>s. JUndefined)) ''a.js'' css_store = (Inr False, css_store)
   \<and> testRule example_RegExp_new (RuleFunction (\<lambda>s. JBool False)) ''a.js'' css_store = (Inr False, css_store)
   \<and> testRule example_RegExp_new (RuleFunction (\<lambda>s. JNum 1)) ''a.js'' css_store = (Inr True, css_store)
   \<and> testRule example_RegExp_new (RuleFunction (\<lambda>s. JStr s)) ''a.js'' css_store = (Inr True, css_store)
   \<and> testRule example_RegExp_new (RuleFunction (\<lambda>s. JObject 0)) ''a.js'' css_store = (Inr True, css_store)
   \<and> fst (testRule example_RegExp_new
          (RuleArray [RuleString ''js'', RuleFunction (\<lambda>s. JNum 0)]) ''a.js'' css_store) = Inr False
   \<and> fst (testRule example_RegExp_new
          (RuleArray [RuleString ''js'', RuleFunction (\<lambda>s. JStr s)]) ''a.js'' css_store) = Inr True
   \<and> testRule example_RegExp_new (RuleOther ONull) ''a.js'' css_store = (Inl InvalidRule, css_store)"
proof -
  note shapes = testRule_shapes[where nr = example_RegExp_new]
  have flag: "flagless (css_store 0)"
    by (simp add: css_store_def flagless_def RegExp_literal_def)
  have m: "pattern_matches (css_store 0) s = rx_test css_rx s" for s
    by (simp add: css_store_def pattern_matches_literal)
  have r1: "testRule example_RegExp_new (RuleRegExp 0) ''b.css'' css_store = (Inr True, css_store)"
    using shapes[where st = css_store and r = 0 and s = "''b.css''", THEN conjunct1] flag
    by (simp add: m rx_test_css_b)
  have r2: "testRule example_RegExp_new (RuleRegExp 0) ''a.js'' css_store = (Inr False, css_store)"
    using shapes[where st = css_store and r = 0 and s = "''a.js''", THEN conjunct1] flag
    by (simp add: m rx_test_css_a)
  have g1: "fst (testRule example_RegExp_new (RuleRegExp 0) ''b.css'' css_g_store) = Inr True"
    using shapes[where st = css_g_store and r = 0 and s = "''b.css''", THEN conjunct2, THEN conjunct1]
    by (simp add: css_g_store_def RegExp_literal_def rx_matcher_def css_rx_def)
  have g2: "fst (testRule example_RegExp_new (RuleRegExp 0) ''b.css''
          (css_g_store(0 := (RegExp_literal css_rx True False)\<lparr>lastIndex := 5\<rparr>))) = Inr False"
    using shapes[where st = "css_g_store(0 := (RegExp_literal css_rx True False)\<lparr>lastIndex := 5\<rparr>)"
        and r = 0 and s = "''b.css''", THEN conjunct2, THEN conjunct1]
    by (simp add: RegExp_literal_def rx_matcher_def css_rx_def)
  have y1: "fst (testRule example_RegExp_new (RuleRegExp 0) ''b.css'' (\<lambda>r. RegExp_literal css_rx False True)) = Inr False"
    using shapes[where st = "\<lambda>r. RegExp_literal css_rx False True" and r = 0 and s = "''b.css''",
        THEN conjunct2, THEN conjunct2, THEN conjunct1]
    by (simp add: RegExp_literal_def rx_matcher_def css_rx_def)
  note str = shapes[THEN conjunct2, THEN conjunct2, THEN conjunct2, THEN conjunct1]
  have s1: "testRule example_RegExp_new (RuleString ''css$'') ''b.css'' css_store = (Inr True, css_store)"
    using str[of "''css$''" "rx_matcher css_end_rx" "''b.css''" css_store]
      list_ex_rx_matcher[of css_end_rx "''b.css''"]
    by (simp add: example_RegExp_new_def rx_test_css_end_b del: testRule.simps upt_Suc)
  have s2: "testRule example_RegExp_new (RuleString ''js'') ''b.css'' css_store = (Inr False, css_store)"
    using str[of "''js''" "rx_matcher js_rx" "''b.css''" css_store]
      list_ex_rx_matcher[of js_rx "''b.css''"]
    by (simp add: example_RegExp_new_def rx_test_js_b del: testRule.simps upt_Suc)
  have s3: "testRule example_RegExp_new (RuleString ''js'') ''a.js'' css_store = (Inr True, css_store)"
    using str[of "''js''" "rx_matcher js_rx" "''a.js''" css_store]
      list_ex_rx_matcher[of js_rx "''a.js''"]
    by (simp add: example_RegExp_new_def rx_test_js_a del: testRule.simps upt_Suc)
  note fn = shapes[THEN conjunct2, THEN conjunct2, THEN conjunct2, THEN conjunct2, THEN conjunct1]
  have f: "testRule example_RegExp_new (RuleFunction (\<lambda>s. JNum 0)) ''a.js'' css_store = (Inr False, css_store)"
    "testRule example_RegExp_new (RuleFunction (\<lambda>s. JStr [])) ''a.js'' css_store = (Inr False, css_store)"
    "testRule example_RegExp_new (RuleFunction (\<lambda>s. JNull)) ''a.js'' css_store = (Inr False, css_store)"
    "testRule example_RegExp_new (RuleFunction (\<lambda>s. JUndefined)) ''a.js'' css_store = (Inr False, css_store)"
    "testRule example_RegExp_new (RuleFunction (\<lambda>s. JBool False)) ''a.js'' css_store = (Inr False, css_store)"
    "testRule example_RegExp_new (RuleFunction (\<lambda>s. JNum 1)) ''a.js'' css_store = (Inr True, css_store)"
    "testRule example_RegExp_new (RuleFunction (\<lambda>s. JStr s)) ''a.js'' css_store = (Inr True, css_store)"
    "testRule example_RegExp_new (RuleFunction (\<lambda>s. JObject 0)) ''a.js'' css_store = (Inr True, css_store)"
    using fn[of "\<lambda>s. JNum 0" "''a.js''" css_store] fn[of "\<lambda>s. JStr []" "''a.js''" css_store]
      fn[of "\<lambda>s. JNull" "''a.js''" css_store] fn[of "\<lambda>s. JUndefined" "''a.js''" css_store]
      fn[of "\<lambda>s. JBool False" "''a.js''" css_store] fn[of "\<lambda>s. JNum 1" "''a.js''" css_store]
      fn[of "\<lambda>s. JStr s" "''a.js''" css_store] fn[of "\<lambda>s. JObject 0" "''a.js''" css_store]
    by (simp_all del: testRule.simps)
  note lst = shapes[THEN conjunct2, THEN conjunct2, THEN conjunct2, THEN conjunct2, THEN conjunct2, THEN conjunct1]
  have l1: "fst (testRule example_RegExp_new
          (RuleArray [RuleString ''js'', RuleFunction (\<lambda>s. JNum 0)]) ''a.js'' css_store) = Inr False"
    using lst[of "[RuleString ''js'', RuleFunction (\<lambda>s. JNum 0)]" "''a.js''" css_store]
    by (simp add: s3 f del: testRule.simps)
  have l2: "fst (testRule example_RegExp_new
          (RuleArray [RuleString ''js'', RuleFunction (\<lambda>s. JStr s)]) ''a.js'' css_store) = Inr True"
    using lst[of "[RuleString ''js'', RuleFunction (\<lambda>s. JStr s)]" "''a.js''" css_store]
    by (simp add: s3 f del: testRule.simps)
  have o: "testRule example_RegExp_new (RuleOther ONull) ''a.js'' css_store = (Inl InvalidRule, css_store)"
    using shapes[THEN conjunct2, THEN conjunct2, THEN conjunct2, THEN conjunct2, THEN conjunct2,
        THEN conjunct2, THEN conjunct2, of ONull "''a.js''" css_store] .
  show ?thesis
    using r1 r2 g1 g2 y1 s1 s2 f l1 l2 o by (simp del: testRule.simps)
qed

section \<open>Priority tiers\<close>

lemma css_store_flagless: "flagless (css_store r)"
  by (simp add: css_store_def flagless_def RegExp_literal_def)

lemma css_store_matches: "pattern_matches (css_store r) s = rx_test css_rx s"
  by (simp add: css_store_def pattern_matches_literal)

lemma reg_test_flagless:
  "flagless (st reg) \<Longrightarrow> reg_test reg f st = (pattern_matches (st reg) (name f), st)"
  by (simp add: reg_test_def RegExp_test_flagless)

lemma lodash_remove_flagless:
  "flagless (st reg) \<Longrightarrow>
   lodash_remove (reg_test reg) fs st =
     ((filter (\<lambda>f. pattern_matches (st reg) (name f)) fs,
       filter (\<lambda>f. \<not> pattern_matches (st reg) (name f)) fs), st)"
  by (induction fs) (simp_all add: reg_test_flagless)

lemma lodash_remove_mset:
  "mset (fst (fst (lodash_remove p xs st))) + mset (snd (fst (lodash_remove p xs st))) = mset xs"
proof (induction xs arbitrary: st)
  case Nil
  show ?case by simp
next
  case (Cons x xs)
  obtain b st' where p: "p x st = (b, st')" by (cases "p x st")
  obtain removed remaining st'' where r: "lodash_remove p xs st' = ((removed, remaining), st'')"
    by (cases "lodash_remove p xs st'") auto
  from Cons.IH[of st'] r have "mset removed + mset remaining = mset xs" by simp
  with p r show ?case by (cases b) simp_all
qed

lemma prioritizeFiles_map_eq:
  "list_all (\<lambda>r. flagless (st r)) ps \<Longrightarrow>
   prioritizeFiles_map ps fs st =
     ((filter (\<lambda>f. \<not> list_ex (\<lambda>r. pattern_matches (st r) (name f)) ps) fs,
       map (\<lambda>i. filter (\<lambda>f. pattern_matches (st (ps ! i)) (name f) \<and>
                             \<not> list_ex (\<lambda>r. pattern_matches (st r) (name f)) (take i ps)) fs)
         [0..<length ps]), st)"
proof (induction ps arbitrary: fs)
  case Nil
  show ?case by simp
next
  case (Cons reg regs)
  have upt: "[0..<length (reg # regs)] = 0 # map Suc [0..<length regs]"
    by (simp add: upt_conv_Cons map_Suc_upt del: upt_Suc)
  from Cons.prems have f: "flagless (st reg)" and fs: "list_all (\<lambda>r. flagless (st r)) regs"
    by simp_all
  show ?case
    unfolding upt
    using f by (simp add: Cons.IH[OF fs] lodash_remove_flagless conj_ac cong: filter_cong)
qed

lemma prioritizeFiles_map_mset:
  "mset (fst (fst (prioritizeFiles_map ps fs st))) +
   mset (concat (snd (fst (prioritizeFiles_map ps fs st)))) = mset fs"
proof (induction ps arbitrary: fs st)
  case Nil
  show ?case by simp
next
  case (Cons reg regs)
  obtain removed remaining st' where r: "lodash_remove (reg_test reg) fs st = ((removed, remaining), st')"
    by (cases "lodash_remove (reg_test reg) fs st") auto
  obtain rest tiers st'' where m: "prioritizeFiles_map regs remaining st' = ((rest, tiers), st'')"
    by (cases "prioritizeFiles_map regs remaining st'") auto
  from lodash_remove_mset[of "reg_test reg" fs st] r have "mset removed + mset remaining = mset fs"
    by simp
  moreover from Cons.IH[of remaining st'] m have "mset rest + mset (concat tiers) = mset remaining"
    by simp
  ultimately show ?case using r m by (simp add: ac_simps)
qed

lemma prioritizeFiles_mset: "mset (concat (fst (prioritizeFiles opts fs st))) = mset fs"
  using prioritizeFiles_map_mset[of "case priority opts of None \<Rightarrow> [] | Some p \<Rightarrow> p" fs st]
  by (cases "prioritizeFiles_map (case priority opts of None \<Rightarrow> [] | Some p \<Rightarrow> p) fs st")
    (auto simp: prioritizeFiles_def)

text \<open>
  C5, as amended: when no configured priority pattern carries the global or the sticky
  flag, \<open>prioritizeFiles\<close> returns first the files that match no priority pattern, then one
  tier per pattern in the order of the patterns, each holding the files that match the
  pattern and no earlier one, all in the order of the input, and leaves the patterns as they
  are; whatever the flags, the tiers together hold every file once; and with the one pattern
  \<^verbatim>\<open>/\.css$/\<close> the files \<open>a.js\<close>, \<open>b.css\<close> are grouped as \<open>[[a.js], [b.css]]\<close>.
\<close>

theorem prioritizeFiles_tiers:
  "(list_all (\<lambda>r. flagless (st r)) (case priority opts of None \<Rightarrow> [] | Some p \<Rightarrow> p) \<longrightarrow>
      (let ps = (case priority opts of None \<Rightarrow> [] | Some p \<Rightarrow> p)
       in prioritizeFiles opts fs st =
            (filter (\<lambda>f. \<not> list_ex (\<lambda>r. pattern_matches (st r) (name f)) ps) fs #
             map (\<lambda>i. filter (\<lambda>f. pattern_matches (st (ps ! i)) (name f) \<and>
                                   \<not> list_ex (\<lambda>r. pattern_matches (st r) (name f)) (take i ps)) fs)
               [0..<length ps],
             st)))
   \<and> mset (concat (fst (prioritizeFiles opts fs st))) = mset fs
   \<and> prioritizeFiles (opts\<lparr>priority := Some [0]\<rparr>) [file_a, file_b] css_store =
        ([[file_a], [file_b]], css_store)"
proof (intro conjI impI)
  assume "list_all (\<lambda>r. flagless (st r)) (case priority opts of None \<Rightarrow> [] | Some p \<Rightarrow> p)"
  then show "let ps = (case priority opts of None \<Rightarrow> [] | Some p \<Rightarrow> p)
       in prioritizeFiles opts fs st =
            (filter (\<lambda>f. \<not> list_ex (\<lambda>r. pattern_matches (st r) (name f)) ps) fs #
             map (\<lambda>i. filter (\<lambda>f. pattern_matches (st (ps ! i)) (name f) \<and>
                                   \<not> list_ex (\<lambda>r. pattern_matches (st r) (name f)) (take i ps)) fs)
               [0..<length ps],
             st)"
    by (simp add: prioritizeFiles_def prioritizeFiles_map_eq Let_def)
next
  show "mset (concat (fst (prioritizeFiles opts fs st))) = mset fs"
    by (rule prioritizeFiles_mset)
next
  show "prioritizeFiles (opts\<lparr>priority := Some [0]\<rparr>) [file_a, file_b] css_store =
        ([[file_a], [file_b]], css_store)"
    by (simp add: prioritizeFiles_def reg_test_flagless css_store_flagless css_store_matches
          file_a_def file_b_def rx_test_css_a rx_test_css_b)
qed

theorem prioritizeFiles_tiers_witness:
  "prioritizeFiles priority_options [file_a, file_b, file_css_c] css_store =
     ([[file_a], [file_b, file_css_c]], css_store)"
proof -
  have c: "rx_test css_rx ''c.css''"
    by (simp add: rx_eval css_rx_def)
  have "list_all (\<lambda>r. flagless (css_store r)) (case priority priority_options of None \<Rightarrow> [] | Some p \<Rightarrow> p)"
    by (simp add: priority_options_def plain_options_def css_store_flagless)
  with prioritizeFiles_tiers[of css_store priority_options "[file_a, file_b, file_css_c]"]
  show ?thesis
    by (simp add: Let_def priority_options_def plain_options_def file_a_def file_b_def file_css_c_def
          css_store_matches rx_test_css_a rx_test_css_b c)
qed

text \<open>
  C5 as stated fails for a pattern with the global flag: with the one pattern \<^verbatim>\<open>/\.css$/g\<close>
  and the files \<open>a.css\<close>, \<open>b.css\<close>, \<open>c.css\<close>, the file \<open>b.css\<close>, which the pattern matches,
  is left in the first tier.
\<close>

theorem prioritizeFiles_global_counterexample:
  "fst (prioritizeFiles priority_options [file_css_a, file_b, file_css_c] css_g_store) =
     [[file_b], [file_css_a, file_css_c]]
   \<and> pattern_matches (css_g_store 0) (name file_b)"
proof -
  have "pattern_matches (css_g_store 0) (name file_b) = rx_test css_rx ''b.css''"
    using list_ex_rx_matcher[of css_rx "''b.css''"]
    by (simp add: pattern_matches_def css_g_store_def RegExp_literal_def file_b_def del: upt_Suc)
  then show ?thesis
    by (simp add: rx_test_css_b prioritizeFiles_def priority_options_def plain_options_def reg_test_def
          file_css_a_def file_b_def file_css_c_def css_g_store_def
          css_g_test_start css_g_test_end css_g_reset)
qed

section \<open>Filtering\<close>

lemma isIgnoredFile_ds: "isIgnoredFile ''.DS_Store''"
  by (simp add: isIgnoredFile_def UPLOAD_IGNORES_def rx_eval is_line_terminator_def)

lemma isIgnoredFile_a: "\<not> isIgnoredFile ''a.js''"
  by (simp add: isIgnoredFile_def UPLOAD_IGNORES_def rx_eval is_line_terminator_def)

lemma isIgnoredFile_b: "\<not> isIgnoredFile ''b.css''"
  by (simp add: isIgnoredFile_def UPLOAD_IGNORES_def rx_eval is_line_terminator_def)

lemma isIgnoredFile_css: "\<not> isIgnoredFile [c, CHR ''.'', CHR ''c'', CHR ''s'', CHR ''s'']"
  by (simp add: isIgnoredFile_def UPLOAD_IGNORES_def rx_eval is_line_terminator_def)

lemma isIgnoredFile_txt: "\<not> isIgnoredFile ''x.txt''"
  by (simp add: isIgnoredFile_def UPLOAD_IGNORES_def rx_eval is_line_terminator_def)

lemma isIncludeAndNotExclude_flagless:
  assumes inc: "configured_flagless st (include opts)"
    and exc: "configured_flagless st (exclude opts)"
  shows "snd (isIncludeAndNotExclude nr opts s st) = st"
    and "rule_returns nr st (include opts) s \<Longrightarrow> rule_returns nr st (exclude opts) s \<Longrightarrow>
         fst (isIncludeAndNotExclude nr opts s st) =
           Inr (spec_include_passes nr opts st s \<and> \<not> spec_exclude_matches nr opts st s)"
    and "fst (isIncludeAndNotExclude nr opts s st) = Inr b \<Longrightarrow>
         b = (spec_include_passes nr opts st s \<and> \<not> spec_exclude_matches nr opts st s)"
proof -
  define ti where "ti = (case include opts of
              None \<Rightarrow> (Inr True, st)
            | Some r \<Rightarrow> if rule_truthy r then testRule nr r s st else (Inr True, st))"
  define te where "te = (case exclude opts of
                   None \<Rightarrow> (Inr False, st)
                 | Some r \<Rightarrow> if rule_truthy r then testRule nr r s st else (Inr False, st))"
  have "snd ti = st"
    using inc by (simp add: ti_def configured_flagless_def testRule_flagless split: option.splits)
  then obtain xi where ti: "ti = (xi, st)" by (cases ti) simp
  have "snd te = st"
    using exc by (simp add: te_def configured_flagless_def testRule_flagless split: option.splits)
  then obtain xe where te: "te = (xe, st)" by (cases te) simp
  have si: "spec_include_passes nr opts st s = (xi = Inr True)"
    using ti by (auto simp: spec_include_passes_def ti_def split: option.splits if_splits)
  have se: "spec_exclude_matches nr opts st s = (xe = Inr True)"
    using te by (auto simp: spec_exclude_matches_def te_def split: option.splits if_splits)
  have ri: "rule_returns nr st (include opts) s = (\<not> isl xi)"
    using ti by (auto simp: rule_returns_def ti_def split: option.splits if_splits)
  have re: "rule_returns nr st (exclude opts) s = (\<not> isl xe)"
    using te by (auto simp: rule_returns_def te_def split: option.splits if_splits)
  have eq: "isIncludeAndNotExclude nr opts s st =
      (case xi of Inl e \<Rightarrow> (Inl e, st)
       | Inr isInclude \<Rightarrow>
           (case xe of Inl e \<Rightarrow> (Inl e, st)
            | Inr isExclude \<Rightarrow> (Inr (isInclude \<and> \<not> isExclude), st)))"
    unfolding isIncludeAndNotExclude_def ti_def[symmetric]
    by (cases xi; cases xe) (simp_all add: ti te_def[symmetric] te)
  show "snd (isIncludeAndNotExclude nr opts s st) = st"
    unfolding eq by (cases xi; cases xe) simp_all
  show "fst (isIncludeAndNotExclude nr opts s st) =
           Inr (spec_include_passes nr opts st s \<and> \<not> spec_exclude_matches nr opts st s)"
    if "rule_returns nr st (include opts) s" "rule_returns nr st (exclude opts) s"
    using that unfolding eq si se ri re by (cases xi; cases xe) auto
  show "b = (spec_include_passes nr opts st s \<and> \<not> spec_exclude_matches nr opts st s)"
    if "fst (isIncludeAndNotExclude nr opts s st) = Inr b"
    using that unfolding eq si se by (cases xi; cases xe) auto
qed

lemma filterAllowedFiles_reduce_returns:
  assumes inc: "configured_flagless st (include opts)"
    and exc: "configured_flagless st (exclude opts)"
  shows "list_all (\<lambda>f. rule_returns nr st (include opts) (name f) \<and>
                      rule_returns nr st (exclude opts) (name f)) fs \<Longrightarrow>
   filterAllowedFiles_reduce nr opts res fs st =
     (Inr (res @ filter (\<lambda>f. spec_include_passes nr opts st (name f) \<and>
                           \<not> spec_exclude_matches nr opts st (name f) \<and>
                           \<not> isIgnoredFile (name f)) fs), st)"
proof (induction fs arbitrary: res)
  case Nil
  show ?case by simp
next
  case (Cons f fs)
  from Cons.prems have r: "rule_returns nr st (include opts) (name f)"
      "rule_returns nr st (exclude opts) (name f)" by simp_all
  have "isIncludeAndNotExclude nr opts (name f) st =
      (Inr (spec_include_passes nr opts st (name f) \<and> \<not> spec_exclude_matches nr opts st (name f)), st)"
    using isIncludeAndNotExclude_flagless(1)[OF inc exc, of nr "name f"]
      isIncludeAndNotExclude_flagless(2)[OF inc exc r]
    by (simp add: prod_eq_iff)
  moreover from Cons.prems have "list_all (\<lambda>f. rule_returns nr st (include opts) (name f) \<and>
                      rule_returns nr st (exclude opts) (name f)) fs" by simp
  ultimately show ?case by (simp add: Cons.IH)
qed

lemma filterAllowedFiles_reduce_Inr:
  assumes inc: "configured_flagless st (include opts)"
    and exc: "configured_flagless st (exclude opts)"
  shows "fst (filterAllowedFiles_reduce nr opts res fs st) = Inr kept \<Longrightarrow>
   kept = res @ filter (\<lambda>f. spec_include_passes nr opts st (name f) \<and>
                           \<not> spec_exclude_matches nr opts st (name f) \<and>
                           \<not> isIgnoredFile (name f)) fs"
proof (induction fs arbitrary: res)
  case Nil
  then show ?case by simp
next
  case (Cons f fs)
  obtain x where x: "isIncludeAndNotExclude nr opts (name f) st = (x, st)"
    using isIncludeAndNotExclude_flagless(1)[OF inc exc, of nr "name f"]
    by (cases "isIncludeAndNotExclude nr opts (name f) st") simp
  with Cons.prems obtain b where b: "x = Inr b" by (cases x) simp_all
  from x b have "b = (spec_include_passes nr opts st (name f) \<and> \<not> spec_exclude_matches nr opts st (name f))"
    using isIncludeAndNotExclude_flagless(3)[OF inc exc, of nr "name f" b] by simp
  moreover from Cons.prems x b have
    "fst (filterAllowedFiles_reduce nr opts (if b \<and> \<not> isIgnoredFile (name f) then res @ [f] else res) fs st) = Inr kept"
    by simp
  from Cons.IH[OF this] have
    "kept = (if b \<and> \<not> isIgnoredFile (name f) then res @ [f] else res) @
        filter (\<lambda>f. spec_include_passes nr opts st (name f) \<and>
                           \<not> spec_exclude_matches nr opts st (name f) \<and>
                           \<not> isIgnoredFile (name f)) fs" .
  ultimately show ?case by auto
qed

lemma filterAllowedFiles_reduce_sound:
  "fst (filterAllowedFiles_reduce nr opts res fs st) = Inr kept \<Longrightarrow>
   \<exists>ys. kept = res @ ys \<and> (\<forall>f\<in>set ys. f \<in> set fs \<and> \<not> isIgnoredFile (name f))"
proof (induction fs arbitrary: res st)
  case Nil
  then show ?case by simp
next
  case (Cons f fs)
  obtain x st' where x: "isIncludeAndNotExclude nr opts (name f) st = (x, st')"
    by (cases "isIncludeAndNotExclude nr opts (name f) st")
  with Cons.prems obtain b where b: "x = Inr b" by (cases x) simp_all
  from Cons.prems x b have
    "fst (filterAllowedFiles_reduce nr opts (if b \<and> \<not> isIgnoredFile (name f) then res @ [f] else res) fs st') = Inr kept"
    by simp
  from Cons.IH[OF this] obtain ys where
    ys: "kept = (if b \<and> \<not> isIgnoredFile (name f) then res @ [f] else res) @ ys"
      "\<forall>f\<in>set ys. f \<in> set fs \<and> \<not> isIgnoredFile (name f)" by blast
  show ?case
  proof (cases "b \<and> \<not> isIgnoredFile (name f)")
    case True
    with ys have "kept = res @ (f # ys)" by simp
    moreover from True ys(2) have "\<forall>g\<in>set (f # ys). g \<in> set (f # fs) \<and> \<not> isIgnoredFile (name g)"
      by auto
    ultimately show ?thesis by blast
  next
    case False
    with ys have "kept = res @ ys" by auto
    moreover from ys(2) have "\<forall>g\<in>set ys. g \<in> set (f # fs) \<and> \<not> isIgnoredFile (name g)" by auto
    ultimately show ?thesis by blast
  qed
qed

text \<open>
  C7, as amended: when no \<open>RegExp\<close> of the configured include and exclude rules carries the
  global or the sticky flag, then \<open>filterAllowedFiles\<close>, if the rules return on every name,
  keeps exactly the files whose name passes the include rule (or none is configured), does
  not match the configured exclude rule and matches no ignore pattern, in the order of the
  input, and leaves the patterns as they are; every list that it returns is that one, so a
  file matching the exclude rule is absent even if it passes the include rule. Whatever the
  rules and their flags, a file in the filtered list is one of the input files and matches
  no ignore pattern.
\<close>

theorem filterAllowedFiles_policy:
  "(configured_flagless st (include opts) \<and> configured_flagless st (exclude opts) \<and>
    list_all (\<lambda>f. rule_returns nr st (include opts) (name f) \<and>
                   rule_returns nr st (exclude opts) (name f)) fs \<longrightarrow>
      filterAllowedFiles nr opts fs st =
        (Inr (filter (\<lambda>f. spec_include_passes nr opts st (name f) \<and>
                          \<not> spec_exclude_matches nr opts st (name f) \<and>
                          \<not> isIgnoredFile (name f)) fs), st))
   \<and> (configured_flagless st (include opts) \<and> configured_flagless st (exclude opts) \<and>
      fst (filterAllowedFiles nr opts fs st) = Inr kept \<longrightarrow>
        kept = filter (\<lambda>f. spec_include_passes nr opts st (name f) \<and>
                           \<not> spec_exclude_matches nr opts st (name f) \<and>
                           \<not> isIgnoredFile (name f)) fs)
   \<and> (fst (filterAllowedFiles nr opts fs st) = Inr kept \<longrightarrow>
        (\<forall>f\<in>set kept. f \<in> set fs \<and> \<not> isIgnoredFile (name f)))"
proof (intro conjI impI)
  assume a: "configured_flagless st (include opts) \<and> configured_flagless st (exclude opts) \<and>
    list_all (\<lambda>f. rule_returns nr st (include opts) (name f) \<and>
                   rule_returns nr st (exclude opts) (name f)) fs"
  then show "filterAllowedFiles nr opts fs st =
        (Inr (filter (\<lambda>f. spec_include_passes nr opts st (name f) \<and>
                          \<not> spec_exclude_matches nr opts st (name f) \<and>
                          \<not> isIgnoredFile (name f)) fs), st)"
    using filterAllowedFiles_reduce_returns[of st opts nr fs "[]"]
    by (simp add: filterAllowedFiles_def)
next
  assume a: "configured_flagless st (include opts) \<and> configured_flagless st (exclude opts) \<and>
      fst (filterAllowedFiles nr opts fs st) = Inr kept"
  then show "kept = filter (\<lambda>f. spec_include_passes nr opts st (name f) \<and>
                           \<not> spec_exclude_matches nr opts st (name f) \<and>
                           \<not> isIgnoredFile (name f)) fs"
    using filterAllowedFiles_reduce_Inr[of st opts nr "[]" fs kept]
    by (simp add: filterAllowedFiles_def)
next
  assume "fst (filterAllowedFiles nr opts fs st) = Inr kept"
  then show "\<forall>f\<in>set kept. f \<in> set fs \<and> \<not> isIgnoredFile (name f)"
    using filterAllowedFiles_reduce_sound[of nr opts "[]" fs st kept]
    by (auto simp: filterAllowedFiles_def)
qed

lemma css_store_test: "fst (RegExp_test (css_store r) s) = rx_test css_rx s"
  using RegExp_test_flagless[OF css_store_flagless, of r s] by (simp add: css_store_matches)

theorem filterAllowedFiles_policy_witness:
  "filterAllowedFiles example_RegExp_new filter_options [file_a, file_b, file_ds, file_txt] css_store =
     (Inr [file_a], css_store)"
proof -
  have "configured_flagless css_store (include filter_options) \<and>
        configured_flagless css_store (exclude filter_options) \<and>
        list_all (\<lambda>f. rule_returns example_RegExp_new css_store (include filter_options) (name f) \<and>
                       rule_returns example_RegExp_new css_store (exclude filter_options) (name f))
          [file_a, file_b, file_ds, file_txt]"
    by (simp add: filter_options_def plain_options_def configured_flagless_def css_store_flagless
          rule_returns_def testRule_RegExp del: testRule.simps(1))
  with filterAllowedFiles_policy[of css_store filter_options example_RegExp_new
      "[file_a, file_b, file_ds, file_txt]" "[]"]
  show ?thesis
    by (simp add: filter_options_def plain_options_def spec_include_passes_def spec_exclude_matches_def
          testRule_RegExp css_store_test file_a_def file_b_def file_ds_def file_txt_def
          rx_test_css_a rx_test_css_b isIgnoredFile_ds isIgnoredFile_a isIgnoredFile_b isIgnoredFile_txt
          del: testRule.simps(1))
qed

text \<open>
  C7 as stated fails for a rule with the global flag: with the include rule \<^verbatim>\<open>/\.css$/g\<close> and
  the files \<open>a.css\<close>, \<open>b.css\<close>, \<open>c.css\<close>, the file \<open>b.css\<close>, whose name passes the include rule
  and matches no ignore pattern, is not kept.
\<close>

theorem filterAllowedFiles_global_counterexample:
  "fst (filterAllowedFiles example_RegExp_new pattern_filter_options
          [file_css_a, file_b, file_css_c] css_g_store) = Inr [file_css_a, file_css_c]
   \<and> fst (testRule example_RegExp_new (RuleRegExp 0) (name file_b) css_g_store) = Inr True
   \<and> exclude pattern_filter_options = None
   \<and> \<not> isIgnoredFile (name file_b)"
  by (simp add: filterAllowedFiles_def isIncludeAndNotExclude_def pattern_filter_options_def
        plain_options_def file_css_a_def file_b_def file_css_c_def css_g_store_def
        css_g_test_start css_g_test_end css_g_reset isIgnoredFile_css)

section \<open>Uploads\<close>

lemma uploadFile_upload:
  "upload (fst (uploadFile rt plugin now fileName file)) =
     lodash_merge
       (lodash_merge [''Key'' \<mapsto> JStr (uploadFile_Key plugin fileName),
                      ''Body'' \<mapsto> fs_createReadStream rt file] DEFAULT_UPLOAD_OPTIONS)
       (uploadFile_s3Params rt plugin fileName file)"
  by (simp add: uploadFile_def Let_def)

lemma uploadFile_promise:
  "promise (fst (uploadFile rt plugin now fileName file)) =
     s3_upload rt (upload (fst (uploadFile rt plugin now fileName file))) now"
  by (simp add: uploadFile_def Let_def)

lemma uploadFile_s3Params_other:
  "k \<noteq> ''ContentType'' \<Longrightarrow>
   uploadFile_s3Params rt plugin fileName file k =
     map_option (resolve_optionConfig fileName file) (uploadOptions plugin k)"
  by (simp add: uploadFile_s3Params_def Let_def split: option.splits)

lemma uploadFile_s3Params_defined:
  "uploadOptions plugin k = Some c \<Longrightarrow> resolve_optionConfig fileName file c \<noteq> JUndefined \<Longrightarrow>
   uploadFile_s3Params rt plugin fileName file k = Some (resolve_optionConfig fileName file c)"
  by (auto simp: uploadFile_s3Params_def Let_def split: option.splits)

lemma uploadFile_Key_eq:
  "uploadFile_Key plugin fileName =
     (let Key = basePath (options plugin) @ fileName
      in if take 1 Key = ''/'' then drop 1 Key else Key)"
  by (cases "basePath (options plugin) @ fileName") (simp_all add: uploadFile_Key_def Let_def)

lemma uploadFile_Key_leading:
  "(take 1 (uploadFile_Key plugin fileName) = ''/'') =
   (take 2 (basePath (options plugin) @ fileName) = ''//'')"
proof (cases "basePath (options plugin) @ fileName")
  case Nil
  then show ?thesis by (simp add: uploadFile_Key_def)
next
  case (Cons c cs)
  then show ?thesis by (cases cs) (auto simp: uploadFile_Key_def Let_def)
qed

lemma upload_Key_computed:
  "uploadOptions plugin ''Key'' = None \<Longrightarrow>
   upload (fst (uploadFile rt plugin now fileName file)) ''Key'' = Some (JStr (uploadFile_Key plugin fileName))"
  by (simp add: uploadFile_upload lodash_merge_def DEFAULT_UPLOAD_OPTIONS_def uploadFile_s3Params_other)

lemma transformBasePath_default:
  "basePathTransform plugin = DEFAULT_TRANSFORM \<Longrightarrow>
   transformBasePath plugin now =
     (now, Inr (plugin\<lparr>options := (options plugin)\<lparr>basePath := addTrailingS3Sep (basePath (options plugin))\<rparr>\<rparr>))"
  by (simp add: transformBasePath_def DEFAULT_TRANSFORM_def promise_then_def promise_resolve_def)

lemma uploadFiles_no_priority:
  "transformBasePath plugin now = (t, Inr plugin') \<Longrightarrow> priority (options plugin') = None \<Longrightarrow>
   uploadFiles rt plugin now fs = (uploadFile_map rt plugin' t fs, (t, Inr ()))"
  by (simp add: uploadFiles_def)

lemma uploadFiles_priority:
  "transformBasePath plugin now = (t, Inr plugin') \<Longrightarrow> priority (options plugin') = Some ps \<Longrightarrow>
   fst (fst (uploadFiles rt plugin now fs)) = [] \<and> snd (uploadFiles rt plugin now fs) = (t, Inl TypeError)"
  by (simp add: uploadFiles_def uploadInPriorityOrder_def Array_map_Promise_resolve_def
        prioritizeFiles_def Let_def split: prod.splits)

lemma uploadFile_map_single:
  "fst (uploadFile_map rt plugin now [f]) = [fst (uploadFile rt plugin now (name f) (path f))]"
  by (simp split: prod.splits)

lemma uploaded_keys_single:
  assumes "c_basePathTransform copts = None" "c_priority copts = None"
    and "c_s3UploadOptions copts ''Key'' = None"
  shows "uploaded_keys (uploadFiles rt (S3Plugin_constructor copts) now [\<lparr>path = p, name = n\<rparr>]) =
     [Some (JStr (uploadFile_Key
        ((S3Plugin_constructor copts)\<lparr>options := (options (S3Plugin_constructor copts))
            \<lparr>basePath := addTrailingS3Sep (basePath (options (S3Plugin_constructor copts)))\<rparr>\<rparr>) n))]"
proof -
  let ?P = "S3Plugin_constructor copts"
  let ?P' = "?P\<lparr>options := (options ?P)\<lparr>basePath := addTrailingS3Sep (basePath (options ?P))\<rparr>\<rparr>"
  have tr: "transformBasePath ?P now = (now, Inr ?P')"
    by (rule transformBasePath_default) (simp add: S3Plugin_constructor_def Let_def assms)
  have pr: "priority (options ?P') = None"
    by (simp add: S3Plugin_constructor_def Let_def assms)
  have key: "uploadOptions ?P' ''Key'' = None"
    by (simp add: S3Plugin_constructor_def Let_def assms)
  have "uploadFiles rt ?P now [\<lparr>path = p, name = n\<rparr>] =
          (uploadFile_map rt ?P' now [\<lparr>path = p, name = n\<rparr>], (now, Inr ()))"
    by (rule uploadFiles_no_priority[OF tr pr])
  then show ?thesis
    using upload_Key_computed[OF key, of rt now n p]
    by (simp add: uploaded_keys_def split: prod.splits)
qed

lemma basePath_constructor:
  "basePath (options (S3Plugin_constructor copts)) =
     (case c_basePath copts of None \<Rightarrow> [] | Some b \<Rightarrow> if b \<noteq> [] then addTrailingS3Sep b else [])"
  by (simp add: S3Plugin_constructor_def Let_def)

text \<open>
  C3, as amended: the key that \<open>uploadFile\<close> computes is the resolved base path followed by
  the file name, without its first character when that is the separator, and it is the key
  of the request when the template has no \<open>Key\<close> entry; with the configured base path
  \<open>test\<close> and the file name \<open>a.js\<close> the key is \<open>test/a.js\<close>; with the empty base path the
  key is the file name without one leading separator, hence the file name itself when it
  does not begin with one.
\<close>

theorem storage_key_computation:
  "uploadFile_Key plugin fileName =
     (let Key = basePath (options plugin) @ fileName
      in if take 1 Key = ''/'' then drop 1 Key else Key)
   \<and> (uploadOptions plugin ''Key'' = None \<longrightarrow>
      upload (fst (uploadFile rt plugin now fileName file)) ''Key'' =
        Some (JStr (let Key = basePath (options plugin) @ fileName
                    in if take 1 Key = ''/'' then drop 1 Key else Key)))
   \<and> (c_basePathTransform copts = None \<and> c_priority copts = None \<and>
       c_s3UploadOptions copts ''Key'' = None \<longrightarrow>
        (c_basePath copts = Some ''test'' \<longrightarrow>
           uploaded_keys (uploadFiles rt (S3Plugin_constructor copts) now [\<lparr>path = p, name = ''a.js''\<rparr>]) =
             [Some (JStr ''test/a.js'')])
      \<and> (c_basePath copts = Some [] \<longrightarrow>
           uploaded_keys (uploadFiles rt (S3Plugin_constructor copts) now [\<lparr>path = p, name = fileName\<rparr>]) =
             [Some (JStr (if take 1 fileName = ''/'' then drop 1 fileName else fileName))]))"
proof (intro conjI impI)
  show "uploadFile_Key plugin fileName =
     (let Key = basePath (options plugin) @ fileName
      in if take 1 Key = ''/'' then drop 1 Key else Key)"
    by (rule uploadFile_Key_eq)
next
  assume "uploadOptions plugin ''Key'' = None"
  then show "upload (fst (uploadFile rt plugin now fileName file)) ''Key'' =
        Some (JStr (let Key = basePath (options plugin) @ fileName
                    in if take 1 Key = ''/'' then drop 1 Key else Key))"
    by (simp add: upload_Key_computed uploadFile_Key_eq)
next
  assume a: "c_basePathTransform copts = None \<and> c_priority copts = None \<and>
       c_s3UploadOptions copts ''Key'' = None" and b: "c_basePath copts = Some ''test''"
  show "uploaded_keys (uploadFiles rt (S3Plugin_constructor copts) now [\<lparr>path = p, name = ''a.js''\<rparr>]) =
             [Some (JStr ''test/a.js'')]"
    using a b
    by (simp add: uploaded_keys_single uploadFile_Key_def basePath_constructor
          addTrailingS3Sep_put_sep)
next
  assume a: "c_basePathTransform copts = None \<and> c_priority copts = None \<and>
       c_s3UploadOptions copts ''Key'' = None" and b: "c_basePath copts = Some []"
  show "uploaded_keys (uploadFiles rt (S3Plugin_constructor copts) now [\<lparr>path = p, name = fileName\<rparr>]) =
             [Some (JStr (if take 1 fileName = ''/'' then drop 1 fileName else fileName))]"
    using a b
    by (simp add: uploaded_keys_single uploadFile_Key_eq basePath_constructor addTrailingS3Sep_Nil)
qed


theorem storage_key_computation_witness:
  "upload (fst (uploadFile example_runtime (S3Plugin_constructor example_options) 0 ''/x.js'' ''/out/x.js'')) ''Key'' =
     Some (JStr ''x.js'')
   \<and> uploaded_keys (uploadFiles example_runtime
        (S3Plugin_constructor (example_options\<lparr>c_basePath := Some ''test''\<rparr>)) 0
        [\<lparr>path = ''/out/a.js'', name = ''a.js''\<rparr>]) = [Some (JStr ''test/a.js'')]
   \<and> uploaded_keys (uploadFiles example_runtime
        (S3Plugin_constructor (example_options\<lparr>c_basePath := Some []\<rparr>)) 0
        [\<lparr>path = ''/out/a.js'', name = ''a.js''\<rparr>]) = [Some (JStr ''a.js'')]"
  using storage_key_computation[of "S3Plugin_constructor example_options" "''/x.js''" example_runtime 0
      "''/out/x.js''" "example_options\<lparr>c_basePath := Some ''test''\<rparr>" "''/out/a.js''"]
    storage_key_computation[of "S3Plugin_constructor example_options" "''a.js''" example_runtime 0
      "''/out/a.js''" "example_options\<lparr>c_basePath := Some []\<rparr>" "''/out/a.js''"]
  by (simp add: example_options_def S3Plugin_constructor_def Let_def addTrailingS3Sep_Nil)

text \<open>
  C3 as stated fails for a file name that begins with the separator: with the empty base
  path the name \<open>/x.js\<close> is uploaded under the key \<open>x.js\<close>.
\<close>

theorem storage_key_unchanged_counterexample:
  "uploaded_keys (uploadFiles example_runtime
      (S3Plugin_constructor (example_options\<lparr>c_basePath := Some []\<rparr>)) 0 [file_x]) = [Some (JStr ''x.js'')]
   \<and> name file_x = ''/x.js''"
  using uploaded_keys_single[of "example_options\<lparr>c_basePath := Some []\<rparr>" example_runtime 0 "''/out/x.js''" "''/x.js''"]
  by (simp add: example_options_def file_x_def uploadFile_Key_eq basePath_constructor addTrailingS3Sep_Nil)

text \<open>
  C2, as amended: without a \<open>Key\<close> entry in the template, the key of the request begins with
  the separator exactly when the resolved base path followed by the file name begins with two
  separators; \<open>uploadFile\<close> removes one.
\<close>

theorem storage_key_leading_separator:
  "uploadOptions plugin ''Key'' = None \<Longrightarrow>
   \<exists>k. upload (fst (uploadFile rt plugin now fileName file)) ''Key'' = Some (JStr k) \<and>
       (take 1 k = ''/'') = (take 2 (basePath (options plugin) @ fileName) = ''//'')"
proof (intro exI conjI)
  assume "uploadOptions plugin ''Key'' = None"
  then show "upload (fst (uploadFile rt plugin now fileName file)) ''Key'' =
      Some (JStr (uploadFile_Key plugin fileName))"
    by (rule upload_Key_computed)
  show "(take 1 (uploadFile_Key plugin fileName) = ''/'') =
      (take 2 (basePath (options plugin) @ fileName) = ''//'')"
    by (rule uploadFile_Key_leading)
qed

theorem storage_key_leading_separator_witness:
  "\<exists>k. upload (fst (uploadFile example_runtime
           (S3Plugin_constructor (example_options\<lparr>c_basePath := Some ''/''\<rparr>)) 0 ''a.js'' ''/out/a.js'')) ''Key'' =
         Some (JStr k) \<and> take 1 k \<noteq> ''/''"
  using storage_key_leading_separator[of "S3Plugin_constructor (example_options\<lparr>c_basePath := Some ''/''\<rparr>)"
      example_runtime 0 "''a.js''" "''/out/a.js''"]
  by (simp add: example_options_def S3Plugin_constructor_def Let_def addTrailingS3Sep_put_sep)

text \<open>
  C2 as stated fails for the configured base path \<open>//\<close>: the file \<open>a.js\<close> is uploaded under
  the key \<open>/a.js\<close>.
\<close>

theorem storage_key_leading_separator_counterexample:
  "uploaded_keys (uploadFiles example_runtime
      (S3Plugin_constructor (example_options\<lparr>c_basePath := Some ''//''\<rparr>)) 0 [file_a]) =
     [Some (JStr ''/a.js'')]"
  using uploaded_keys_single[of "example_options\<lparr>c_basePath := Some ''//''\<rparr>" example_runtime 0 "''/out/a.js''" "''a.js''"]
  by (simp add: example_options_def file_a_def uploadFile_Key_eq basePath_constructor
        addTrailingS3Sep_put_sep)

text \<open>
  C10: the request of \<open>uploadFile\<close> is the merge of the computed \<open>Key\<close> and \<open>Body\<close>, then
  the default \<open>ACL\<close>, then the resolved template. A template entry that resolves to a
  defined value is the value of the request under its key, \<open>Key\<close>, \<open>Body\<close> and \<open>ACL\<close>
  included; where the template has no entry, the request holds the default \<open>ACL\<close>, the
  computed key and the stream of the file.
\<close>

theorem upload_request_merge:
  "upload (fst (uploadFile rt plugin now fileName file)) =
     lodash_merge
       (lodash_merge [''Key'' \<mapsto> JStr (uploadFile_Key plugin fileName),
                      ''Body'' \<mapsto> fs_createReadStream rt file] DEFAULT_UPLOAD_OPTIONS)
       (uploadFile_s3Params rt plugin fileName file)
   \<and> (uploadOptions plugin k = Some c \<and> resolve_optionConfig fileName file c \<noteq> JUndefined \<longrightarrow>
        upload (fst (uploadFile rt plugin now fileName file)) k = Some (resolve_optionConfig fileName file c))
   \<and> (uploadOptions plugin ''ACL'' = None \<longrightarrow>
        upload (fst (uploadFile rt plugin now fileName file)) ''ACL'' = Some (JStr ''public-read''))
   \<and> (uploadOptions plugin ''Key'' = None \<longrightarrow>
        upload (fst (uploadFile rt plugin now fileName file)) ''Key'' = Some (JStr (uploadFile_Key plugin fileName)))
   \<and> (uploadOptions plugin ''Body'' = None \<longrightarrow>
        upload (fst (uploadFile rt plugin now fileName file)) ''Body'' = Some (fs_createReadStream rt file))"
proof (intro conjI impI)
  show "upload (fst (uploadFile rt plugin now fileName file)) =
     lodash_merge
       (lodash_merge [''Key'' \<mapsto> JStr (uploadFile_Key plugin fileName),
                      ''Body'' \<mapsto> fs_createReadStream rt file] DEFAULT_UPLOAD_OPTIONS)
       (uploadFile_s3Params rt plugin fileName file)"
    by (rule uploadFile_upload)
next
  assume "uploadOptions plugin k = Some c \<and> resolve_optionConfig fileName file c \<noteq> JUndefined"
  then show "upload (fst (uploadFile rt plugin now fileName file)) k = Some (resolve_optionConfig fileName file c)"
    by (simp add: uploadFile_upload lodash_merge_def uploadFile_s3Params_defined)
next
  assume "uploadOptions plugin ''ACL'' = None"
  then show "upload (fst (uploadFile rt plugin now fileName file)) ''ACL'' = Some (JStr ''public-read'')"
    by (simp add: uploadFile_upload lodash_merge_def DEFAULT_UPLOAD_OPTIONS_def uploadFile_s3Params_other)
next
  assume "uploadOptions plugin ''Key'' = None"
  then show "upload (fst (uploadFile rt plugin now fileName file)) ''Key'' = Some (JStr (uploadFile_Key plugin fileName))"
    by (rule upload_Key_computed)
next
  assume "uploadOptions plugin ''Body'' = None"
  then show "upload (fst (uploadFile rt plugin now fileName file)) ''Body'' = Some (fs_createReadStream rt file)"
    by (simp add: uploadFile_upload lodash_merge_def DEFAULT_UPLOAD_OPTIONS_def uploadFile_s3Params_other)
qed

theorem upload_request_merge_witness:
  "upload (fst (uploadFile example_runtime override_plugin 0 ''a.js'' ''/out/a.js'')) ''Key'' = Some (JStr ''forced/key'')
   \<and> upload (fst (uploadFile example_runtime override_plugin 0 ''a.js'' ''/out/a.js'')) ''Body'' = Some (JStr ''a.js from /out/a.js'')
   \<and> upload (fst (uploadFile example_runtime override_plugin 0 ''a.js'' ''/out/a.js'')) ''ACL'' = Some (JStr ''private'')
   \<and> upload (fst (uploadFile example_runtime (S3Plugin_constructor example_options) 0 ''a.js'' ''/out/a.js'')) ''ACL'' =
        Some (JStr ''public-read'')
   \<and> upload (fst (uploadFile example_runtime (S3Plugin_constructor example_options) 0 ''a.js'' ''/out/a.js'')) ''Key'' =
        Some (JStr ''a.js'')
   \<and> upload (fst (uploadFile example_runtime (S3Plugin_constructor example_options) 0 ''a.js'' ''/out/a.js'')) ''Body'' =
        Some (JObject 0)"
proof -
  note template = upload_request_merge[of example_runtime override_plugin 0 "''a.js''" "''/out/a.js''",
      THEN conjunct2, THEN conjunct1]
  note defaults = upload_request_merge[of example_runtime "S3Plugin_constructor example_options" 0
      "''a.js''" "''/out/a.js''" "''Key''" "Constant JNull", THEN conjunct2, THEN conjunct2]
  have "upload (fst (uploadFile example_runtime override_plugin 0 ''a.js'' ''/out/a.js'')) ''Key'' =
      Some (JStr ''forced/key'')"
    using template[of "''Key''" "Constant (JStr ''forced/key'')"]
    by (simp add: override_plugin_def resolve_optionConfig_def)
  moreover
  have "upload (fst (uploadFile example_runtime override_plugin 0 ''a.js'' ''/out/a.js'')) ''Body'' =
      Some (JStr ''a.js from /out/a.js'')"
    using template[of "''Body''" "Computed (\<lambda>n p. JStr (n @ '' from '' @ p))"]
    by (simp add: override_plugin_def resolve_optionConfig_def)
  moreover
  have "upload (fst (uploadFile example_runtime override_plugin 0 ''a.js'' ''/out/a.js'')) ''ACL'' =
      Some (JStr ''private'')"
    using template[of "''ACL''" "Constant (JStr ''private'')"]
    by (simp add: override_plugin_def resolve_optionConfig_def)
  moreover
  have "upload (fst (uploadFile example_runtime (S3Plugin_constructor example_options) 0 ''a.js'' ''/out/a.js'')) ''ACL'' =
        Some (JStr ''public-read'')
   \<and> upload (fst (uploadFile example_runtime (S3Plugin_constructor example_options) 0 ''a.js'' ''/out/a.js'')) ''Key'' =
        Some (JStr ''a.js'')
   \<and> upload (fst (uploadFile example_runtime (S3Plugin_constructor example_options) 0 ''a.js'' ''/out/a.js'')) ''Body'' =
        Some (JObject 0)"
    using defaults
    by (simp add: example_options_def S3Plugin_constructor_def Let_def uploadFile_Key_def
          example_runtime_def)
  ultimately show ?thesis by simp
qed

text \<open>
  C1: a run of \<open>uploadFiles\<close> without a priority list, on one file, where the storage service
  refuses the upload at time 1. The upload's promise is rejected at time 1; the promise that
  \<open>uploadFiles\<close> returned was fulfilled at time 0 and stays so.
\<close>

theorem uploadFiles_rejection_lost:
  "map promise (fst (fst (uploadFiles failing_runtime (S3Plugin_constructor example_options) 0 [file_a]))) =
     [(1, Inl (UserError ''AccessDenied''))]
   \<and> snd (uploadFiles failing_runtime (S3Plugin_constructor example_options) 0 [file_a]) = (0, Inr ())
   \<and> list_ex (\<lambda>u. is_rejected (promise u))
        (fst (fst (uploadFiles failing_runtime (S3Plugin_constructor example_options) 0 [file_a])))
   \<and> is_fulfilled (snd (uploadFiles failing_runtime (S3Plugin_constructor example_options) 0 [file_a]))
   \<and> list_ex (\<lambda>u. settle_time (snd (uploadFiles failing_runtime (S3Plugin_constructor example_options) 0 [file_a]))
                    < settle_time (promise u))
        (fst (fst (uploadFiles failing_runtime (S3Plugin_constructor example_options) 0 [file_a])))"
proof -
  let ?P = "S3Plugin_constructor example_options"
  let ?P' = "?P\<lparr>options := (options ?P)\<lparr>basePath := addTrailingS3Sep (basePath (options ?P))\<rparr>\<rparr>"
  have tr: "transformBasePath ?P 0 = (0, Inr ?P')"
    by (rule transformBasePath_default) (simp add: S3Plugin_constructor_def Let_def example_options_def)
  have pr: "priority (options ?P') = None"
    by (simp add: S3Plugin_constructor_def Let_def example_options_def)
  have eq: "uploadFiles failing_runtime ?P 0 [file_a] = (uploadFile_map failing_runtime ?P' 0 [file_a], (0, Inr ()))"
    by (rule uploadFiles_no_priority[OF tr pr])
  have started: "fst (fst (uploadFiles failing_runtime ?P 0 [file_a])) =
      [fst (uploadFile failing_runtime ?P' 0 (name file_a) (path file_a))]"
    by (simp only: eq fst_conv uploadFile_map_single)
  have refused: "promise (fst (uploadFile failing_runtime ?P' 0 n p)) = (1, Inl (UserError ''AccessDenied''))" for n p
    by (simp add: uploadFile_promise failing_runtime_def example_runtime_def)
  have returned: "snd (uploadFiles failing_runtime ?P 0 [file_a]) = (0, Inr ())"
    by (simp only: eq snd_conv)
  show ?thesis
    by (simp only: started returned list.map refused)
      (simp add: refused is_rejected_def is_fulfilled_def settle_time_def)
qed

section \<open>Promise aggregation\<close>

lemma first_rejection_None: "(first_rejection ps = None) = list_all is_fulfilled ps"
  by (induction ps rule: first_rejection.induct) (auto simp: is_fulfilled_def split: option.splits)

lemma is_rejected_not_fulfilled: "is_rejected p = (\<not> is_fulfilled p)"
  by (simp add: is_rejected_def is_fulfilled_def)

lemma promise_all_fulfilled: "is_fulfilled (promise_all now ps) = list_all is_fulfilled ps"
proof (cases "first_rejection ps")
  case None
  then show ?thesis
    using first_rejection_None[of ps] by (simp add: promise_all_def is_fulfilled_def)
next
  case (Some a)
  then show ?thesis
    using first_rejection_None[of ps] by (cases a) (simp add: promise_all_def is_fulfilled_def)
qed

lemma promise_all_rejected: "is_rejected (promise_all now ps) = list_ex is_rejected ps"
  by (simp add: is_rejected_not_fulfilled promise_all_fulfilled list_ex_iff list_all_iff)

lemma promise_then_resolve_fulfilled:
  "is_fulfilled (promise_then p (\<lambda>t v. promise_resolve t (f v))) = is_fulfilled p"
  by (cases p) (auto simp: promise_then_def promise_resolve_def is_fulfilled_def split: sum.splits)

section \<open>Invalidation\<close>

lemma createInvalidation_requests:
  "map (\<lambda>(i, distributionId). createInvalidation_request rt opts i distributionId) (enumerate n ids) =
   map (\<lambda>i. \<lparr>Request_DistributionId = ids ! i, CallerReference = Date_now rt (n + i),
              Paths_Quantity = length (Items opts), Paths_Items = Items opts\<rparr>) [0..<length ids]"
proof (induction ids arbitrary: n)
  case Nil
  show ?case by simp
next
  case (Cons a ids)
  have upt: "[0..<length (a # ids)] = 0 # map Suc [0..<length ids]"
    by (simp add: upt_conv_Cons map_Suc_upt del: upt_Suc)
  show ?case
    unfolding upt by (simp add: Cons.IH) (simp add: createInvalidation_request_def)
qed

lemma invalidateCloudfront_configured:
  assumes "cloudfrontInvalidateOptions plugin = Some opts" "DistributionId opts = Some d"
    and "distribution_id_truthy d"
  shows "invalidateCloudfront rt plugin now =
    (let opts' = opts\<lparr>DistributionId := Some (IdArray (distribution_ids d))\<rparr>;
         requests = map (\<lambda>(i, distributionId). createInvalidation_request rt opts' i distributionId)
                      (enumerate 0 (distribution_ids d))
     in ((requests, plugin\<lparr>cloudfrontInvalidateOptions := Some opts'\<rparr>),
         promise_then (promise_all now (map (\<lambda>r. cloudfront_createInvalidation rt r now) requests))
           (\<lambda>t ids. promise_resolve t (Some ids))))"
  using assms by (simp add: invalidateCloudfront_def Let_def)

lemma invalidateCloudfront_promise:
  assumes "cloudfrontInvalidateOptions plugin = Some opts" "DistributionId opts = Some d"
    and "d \<noteq> IdString []"
  shows "snd (invalidateCloudfront rt plugin now) =
     promise_then (promise_all now (map (\<lambda>r. cloudfront_createInvalidation rt r now)
                      (fst (fst (invalidateCloudfront rt plugin now)))))
       (\<lambda>t ids. promise_resolve t (Some ids))"
proof -
  from assms(3) have "distribution_id_truthy d" by (cases d) simp_all
  from invalidateCloudfront_configured[OF assms(1,2) this] show ?thesis by (simp add: Let_def)
qed

lemma fulfilled_values_all:
  "list_all is_fulfilled ps \<Longrightarrow> fulfilled_values ps = map (\<lambda>p. projr (snd p)) ps"
  by (induction ps rule: fulfilled_values.induct) (simp_all add: is_fulfilled_def)

lemma first_rejection_member:
  "first_rejection ps = Some (t, e) \<Longrightarrow> list_ex (\<lambda>p. snd p = Inl e) ps"
proof (induction ps arbitrary: t e rule: first_rejection.induct)
  case 1
  then show ?case by simp
next
  case (2 t' v ps)
  then show ?case by simp
next
  case (3 t' e' ps)
  then show ?case by (cases "first_rejection ps") (auto split: if_splits)
qed

lemma promise_all_value:
  "list_all is_fulfilled ps \<Longrightarrow> snd (promise_all now ps) = Inr (map (\<lambda>p. projr (snd p)) ps)"
  using first_rejection_None[of ps] by (simp add: promise_all_def fulfilled_values_all)

lemma promise_all_error:
  "list_ex is_rejected ps \<Longrightarrow>
   isl (snd (promise_all now ps)) \<and> list_ex (\<lambda>p. snd p = Inl (projl (snd (promise_all now ps)))) ps"
proof -
  assume "list_ex is_rejected ps"
  then have "first_rejection ps \<noteq> None"
    using first_rejection_None[of ps]
    by (auto simp: is_rejected_not_fulfilled list_ex_iff list_all_iff)
  then obtain t e where r: "first_rejection ps = Some (t, e)" by (cases "first_rejection ps") auto
  with first_rejection_member[OF r] show ?thesis by (simp add: promise_all_def)
qed

lemma promise_then_resolve_outcome:
  "snd (promise_then p (\<lambda>t v. promise_resolve t (f v))) = map_sum id f (snd p)"
  by (cases p) (auto simp: promise_then_def promise_resolve_def split: sum.splits)

text \<open>
  C8: without a distribution identifier (no options, no identifier, or the empty string)
  \<open>invalidateCloudfront\<close> sends nothing, leaves the plugin as it is and resolves with
  \<open>null\<close>. With a scalar identifier \<open>s\<close> it stores the one-element list \<open>[s]\<close> in the options
  and sends exactly one request, for \<open>s\<close>; with a list of identifiers it sends exactly one
  request per identifier, in the order of the list; every request carries the configured
  path list and its length. The returned promise is fulfilled exactly when every request is
  answered without an error, and then with the list of the answers; it is rejected exactly
  when some request fails, and then with the error of a failed request.
\<close>

theorem invalidateCloudfront_contract:
  "((cloudfrontInvalidateOptions plugin = None \<or>
     (\<exists>opts. cloudfrontInvalidateOptions plugin = Some opts \<and>
        (DistributionId opts = None \<or> DistributionId opts = Some (IdString [])))) \<longrightarrow>
      invalidateCloudfront rt plugin now = (([], plugin), (now, Inr None)))
   \<and> (cloudfrontInvalidateOptions plugin = Some opts \<and> DistributionId opts = Some (IdString s) \<and>
       s \<noteq> [] \<longrightarrow>
        fst (fst (invalidateCloudfront rt plugin now)) =
          [\<lparr>Request_DistributionId = s, CallerReference = Date_now rt 0,
            Paths_Quantity = length (Items opts), Paths_Items = Items opts\<rparr>]
        \<and> cloudfrontInvalidateOptions (snd (fst (invalidateCloudfront rt plugin now))) =
            Some (opts\<lparr>DistributionId := Some (IdArray [s])\<rparr>))
   \<and> (cloudfrontInvalidateOptions plugin = Some opts \<and> DistributionId opts = Some (IdArray ids) \<longrightarrow>
        fst (fst (invalidateCloudfront rt plugin now)) =
          map (\<lambda>i. \<lparr>Request_DistributionId = ids ! i, CallerReference = Date_now rt i,
                     Paths_Quantity = length (Items opts), Paths_Items = Items opts\<rparr>) [0..<length ids]
        \<and> length (fst (fst (invalidateCloudfront rt plugin now))) = length ids
        \<and> map Request_DistributionId (fst (fst (invalidateCloudfront rt plugin now))) = ids
        \<and> cloudfrontInvalidateOptions (snd (fst (invalidateCloudfront rt plugin now))) = Some opts)
   \<and> (cloudfrontInvalidateOptions plugin = Some opts \<and> DistributionId opts = Some d \<and>
       d \<noteq> IdString [] \<longrightarrow>
        is_fulfilled (snd (invalidateCloudfront rt plugin now)) =
          list_all (\<lambda>q. is_fulfilled (cloudfront_createInvalidation rt q now))
            (fst (fst (invalidateCloudfront rt plugin now)))
        \<and> (list_all (\<lambda>q. is_fulfilled (cloudfront_createInvalidation rt q now))
              (fst (fst (invalidateCloudfront rt plugin now))) \<longrightarrow>
            snd (snd (invalidateCloudfront rt plugin now)) =
              Inr (Some (map (\<lambda>q. projr (snd (cloudfront_createInvalidation rt q now)))
                           (fst (fst (invalidateCloudfront rt plugin now))))))
        \<and> is_rejected (snd (invalidateCloudfront rt plugin now)) =
            list_ex (\<lambda>q. is_rejected (cloudfront_createInvalidation rt q now))
              (fst (fst (invalidateCloudfront rt plugin now)))
        \<and> (list_ex (\<lambda>q. is_rejected (cloudfront_createInvalidation rt q now))
              (fst (fst (invalidateCloudfront rt plugin now))) \<longrightarrow>
            isl (snd (snd (invalidateCloudfront rt plugin now))) \<and>
            list_ex (\<lambda>q. snd (cloudfront_createInvalidation rt q now) =
                          Inl (projl (snd (snd (invalidateCloudfront rt plugin now)))))
              (fst (fst (invalidateCloudfront rt plugin now)))))"
proof (intro conjI impI)
  assume "cloudfrontInvalidateOptions plugin = None \<or>
     (\<exists>opts. cloudfrontInvalidateOptions plugin = Some opts \<and>
        (DistributionId opts = None \<or> DistributionId opts = Some (IdString [])))"
  then show "invalidateCloudfront rt plugin now = (([], plugin), (now, Inr None))"
    by (auto simp: invalidateCloudfront_def promise_resolve_def)
next
  assume a: "cloudfrontInvalidateOptions plugin = Some opts \<and> DistributionId opts = Some (IdString s) \<and>
       s \<noteq> []"
  then show "fst (fst (invalidateCloudfront rt plugin now)) =
          [\<lparr>Request_DistributionId = s, CallerReference = Date_now rt 0,
            Paths_Quantity = length (Items opts), Paths_Items = Items opts\<rparr>]"
    by (simp add: invalidateCloudfront_def Let_def createInvalidation_request_def)
  from a show "cloudfrontInvalidateOptions (snd (fst (invalidateCloudfront rt plugin now))) =
            Some (opts\<lparr>DistributionId := Some (IdArray [s])\<rparr>)"
    by (simp add: invalidateCloudfront_def Let_def)
next
  assume a: "cloudfrontInvalidateOptions plugin = Some opts \<and> DistributionId opts = Some (IdArray ids)"
  then show r: "fst (fst (invalidateCloudfront rt plugin now)) =
          map (\<lambda>i. \<lparr>Request_DistributionId = ids ! i, CallerReference = Date_now rt i,
                     Paths_Quantity = length (Items opts), Paths_Items = Items opts\<rparr>) [0..<length ids]"
    using createInvalidation_requests[of rt "opts\<lparr>DistributionId := Some (IdArray ids)\<rparr>" 0 ids]
    by (simp add: invalidateCloudfront_def Let_def)
  show "length (fst (fst (invalidateCloudfront rt plugin now))) = length ids"
    unfolding r by simp
  show "map Request_DistributionId (fst (fst (invalidateCloudfront rt plugin now))) = ids"
    unfolding r by (simp add: comp_def map_nth)
  from a show "cloudfrontInvalidateOptions (snd (fst (invalidateCloudfront rt plugin now))) = Some opts"
    by (simp add: invalidateCloudfront_def Let_def)
next
  assume a: "cloudfrontInvalidateOptions plugin = Some opts \<and> DistributionId opts = Some d \<and>
       d \<noteq> IdString []"
  then have eq: "snd (invalidateCloudfront rt plugin now) =
     promise_then (promise_all now (map (\<lambda>r. cloudfront_createInvalidation rt r now)
                      (fst (fst (invalidateCloudfront rt plugin now)))))
       (\<lambda>t ids. promise_resolve t (Some ids))"
    using invalidateCloudfront_promise[of plugin opts d rt now] by simp
  show f: "is_fulfilled (snd (invalidateCloudfront rt plugin now)) =
          list_all (\<lambda>q. is_fulfilled (cloudfront_createInvalidation rt q now))
            (fst (fst (invalidateCloudfront rt plugin now)))"
    by (subst eq) (simp add: promise_then_resolve_fulfilled promise_all_fulfilled list_all_iff)
  show "is_rejected (snd (invalidateCloudfront rt plugin now)) =
            list_ex (\<lambda>q. is_rejected (cloudfront_createInvalidation rt q now))
              (fst (fst (invalidateCloudfront rt plugin now)))"
    unfolding is_rejected_not_fulfilled f by (simp add: list_ex_iff list_all_iff)
  {
    assume "list_all (\<lambda>q. is_fulfilled (cloudfront_createInvalidation rt q now))
              (fst (fst (invalidateCloudfront rt plugin now)))"
    then have "list_all is_fulfilled (map (\<lambda>r. cloudfront_createInvalidation rt r now)
                      (fst (fst (invalidateCloudfront rt plugin now))))"
      by (simp add: list_all_iff)
    from promise_all_value[OF this, of now]
    show "snd (snd (invalidateCloudfront rt plugin now)) =
              Inr (Some (map (\<lambda>q. projr (snd (cloudfront_createInvalidation rt q now)))
                           (fst (fst (invalidateCloudfront rt plugin now)))))"
      by (subst eq) (simp add: promise_then_resolve_outcome comp_def)
  }
  {
    assume "list_ex (\<lambda>q. is_rejected (cloudfront_createInvalidation rt q now))
              (fst (fst (invalidateCloudfront rt plugin now)))"
    then have "list_ex is_rejected (map (\<lambda>r. cloudfront_createInvalidation rt r now)
                      (fst (fst (invalidateCloudfront rt plugin now))))"
      by (simp add: list_ex_iff)
    from promise_all_error[OF this, of now]
    have e: "isl (snd (promise_all now (map (\<lambda>r. cloudfront_createInvalidation rt r now)
                      (fst (fst (invalidateCloudfront rt plugin now))))))"
      and m: "list_ex (\<lambda>q. snd (cloudfront_createInvalidation rt q now) =
            Inl (projl (snd (promise_all now (map (\<lambda>r. cloudfront_createInvalidation rt r now)
                      (fst (fst (invalidateCloudfront rt plugin now))))))))
            (fst (fst (invalidateCloudfront rt plugin now)))"
      by (simp_all add: list_ex_iff)
    have o: "snd (snd (invalidateCloudfront rt plugin now)) =
       map_sum id Some (snd (promise_all now (map (\<lambda>r. cloudfront_createInvalidation rt r now)
                      (fst (fst (invalidateCloudfront rt plugin now))))))"
      by (subst eq) (simp add: promise_then_resolve_outcome)
    from e show "isl (snd (snd (invalidateCloudfront rt plugin now)))"
      unfolding o by (simp add: isl_map_sum)
    from e have "projl (snd (snd (invalidateCloudfront rt plugin now))) =
        projl (snd (promise_all now (map (\<lambda>r. cloudfront_createInvalidation rt r now)
                      (fst (fst (invalidateCloudfront rt plugin now))))))"
      unfolding o
      by (cases "snd (promise_all now (map (\<lambda>r. cloudfront_createInvalidation rt r now)
                      (fst (fst (invalidateCloudfront rt plugin now)))))") simp_all
    with m show "list_ex (\<lambda>q. snd (cloudfront_createInvalidation rt q now) =
                          Inl (projl (snd (snd (invalidateCloudfront rt plugin now)))))
              (fst (fst (invalidateCloudfront rt plugin now)))"
      by simp
  }
qed

lemma example_plugin_invalidate_options:
  "cloudfrontInvalidateOptions (S3Plugin_constructor example_options) = None"
  by (simp add: S3Plugin_constructor_def example_options_def Let_def)

theorem invalidateCloudfront_contract_witness:
  "invalidateCloudfront example_runtime (S3Plugin_constructor example_options) 0 =
     (([], S3Plugin_constructor example_options), (0, Inr None))
   \<and> fst (fst (invalidateCloudfront selective_runtime invalidating_plugin 0)) =
       [\<lparr>Request_DistributionId = ''E1'', CallerReference = 1000, Paths_Quantity = 1, Paths_Items = [''/*'']\<rparr>]
   \<and> snd (snd (invalidateCloudfront selective_runtime invalidating_plugin 0)) = Inr (Some [''I-E1''])
   \<and> fst (fst (invalidateCloudfront selective_runtime array_invalidating_plugin 0)) =
       [\<lparr>Request_DistributionId = ''E1'', CallerReference = 1000, Paths_Quantity = 2,
          Paths_Items = [''/*'', ''/index.html'']\<rparr>,
        \<lparr>Request_DistributionId = ''E2'', CallerReference = 1000, Paths_Quantity = 2,
          Paths_Items = [''/*'', ''/index.html'']\<rparr>,
        \<lparr>Request_DistributionId = ''E3'', CallerReference = 1000, Paths_Quantity = 2,
          Paths_Items = [''/*'', ''/index.html'']\<rparr>]
   \<and> snd (snd (invalidateCloudfront selective_runtime array_invalidating_plugin 0)) =
       Inl (UserError ''NoSuchDistribution'')
   \<and> snd (snd (invalidateCloudfront example_runtime array_invalidating_plugin 0)) =
       Inr (Some [''I1'', ''I1'', ''I1''])"
proof -
  let ?o1 = "\<lparr>DistributionId = Some (IdString ''E1''), Items = [''/*'']\<rparr>"
  let ?o3 = "\<lparr>DistributionId = Some (IdArray [''E1'', ''E2'', ''E3'']), Items = [''/*'', ''/index.html'']\<rparr>"
  have date: "Date_now selective_runtime = (\<lambda>i. 1000)" "Date_now example_runtime = (\<lambda>i. 1000)"
    by (simp_all add: selective_runtime_def example_runtime_def)
  have sel: "cloudfront_createInvalidation selective_runtime =
      (\<lambda>r now. if Request_DistributionId r = ''E2''
                then (now + 2, Inl (UserError ''NoSuchDistribution''))
                else (now + 1, Inr (''I-'' @ Request_DistributionId r)))"
    by (simp add: selective_runtime_def)
  have ex: "cloudfront_createInvalidation example_runtime = (\<lambda>r now. (now + 1, Inr ''I1''))"
    by (simp add: example_runtime_def)
  have p1: "cloudfrontInvalidateOptions invalidating_plugin = Some ?o1"
    by (simp add: invalidating_plugin_def)
  have p3: "cloudfrontInvalidateOptions array_invalidating_plugin = Some ?o3"
    by (simp add: array_invalidating_plugin_def)
  note none = invalidateCloudfront_contract[where plugin = "S3Plugin_constructor example_options" and
      rt = example_runtime and now = 0]
  note scalar = invalidateCloudfront_contract[where plugin = invalidating_plugin and opts = ?o1 and
      s = "''E1''" and rt = selective_runtime and now = 0 and d = "IdString ''E1''"]
  note array = invalidateCloudfront_contract[where plugin = array_invalidating_plugin and opts = ?o3 and
      rt = selective_runtime and now = 0 and ids = "[''E1'', ''E2'', ''E3'']" and
      d = "IdArray [''E1'', ''E2'', ''E3'']"]
  note array_ok = invalidateCloudfront_contract[where plugin = array_invalidating_plugin and opts = ?o3 and
      rt = example_runtime and now = 0 and ids = "[''E1'', ''E2'', ''E3'']" and
      d = "IdArray [''E1'', ''E2'', ''E3'']"]
  have c1: "invalidateCloudfront example_runtime (S3Plugin_constructor example_options) 0 =
     (([], S3Plugin_constructor example_options), (0, Inr None))"
    using none by (simp add: example_plugin_invalidate_options)
  have r1: "fst (fst (invalidateCloudfront selective_runtime invalidating_plugin 0)) =
       [\<lparr>Request_DistributionId = ''E1'', CallerReference = 1000, Paths_Quantity = 1, Paths_Items = [''/*'']\<rparr>]"
    using scalar by (simp add: p1 date)
  have c2: "snd (snd (invalidateCloudfront selective_runtime invalidating_plugin 0)) = Inr (Some [''I-E1''])"
    using scalar by (simp add: p1 r1 sel is_fulfilled_def)
  have r3: "fst (fst (invalidateCloudfront selective_runtime array_invalidating_plugin 0)) =
       [\<lparr>Request_DistributionId = ''E1'', CallerReference = 1000, Paths_Quantity = 2,
          Paths_Items = [''/*'', ''/index.html'']\<rparr>,
        \<lparr>Request_DistributionId = ''E2'', CallerReference = 1000, Paths_Quantity = 2,
          Paths_Items = [''/*'', ''/index.html'']\<rparr>,
        \<lparr>Request_DistributionId = ''E3'', CallerReference = 1000, Paths_Quantity = 2,
          Paths_Items = [''/*'', ''/index.html'']\<rparr>]"
    using array by (simp add: p3 date)
  have c3: "snd (snd (invalidateCloudfront selective_runtime array_invalidating_plugin 0)) =
       Inl (UserError ''NoSuchDistribution'')"
    using array by (simp add: p3 r3 sel is_rejected_def is_fulfilled_def)
  have r4: "fst (fst (invalidateCloudfront example_runtime array_invalidating_plugin 0)) =
       [\<lparr>Request_DistributionId = ''E1'', CallerReference = 1000, Paths_Quantity = 2,
          Paths_Items = [''/*'', ''/index.html'']\<rparr>,
        \<lparr>Request_DistributionId = ''E2'', CallerReference = 1000, Paths_Quantity = 2,
          Paths_Items = [''/*'', ''/index.html'']\<rparr>,
        \<lparr>Request_DistributionId = ''E3'', CallerReference = 1000, Paths_Quantity = 2,
          Paths_Items = [''/*'', ''/index.html'']\<rparr>]"
    using array_ok by (simp add: p3 date)
  have c4: "snd (snd (invalidateCloudfront example_runtime array_invalidating_plugin 0)) =
       Inr (Some [''I1'', ''I1'', ''I1''])"
    using array_ok by (simp add: p3 r4 ex is_fulfilled_def)
  from c1 r1 c2 r3 c3 c4 show ?thesis by simp
qed

section \<open>The build hook\<close>

lemma apply_plugin_missing:
  "uploadOptions plugin ''Bucket'' = None \<Longrightarrow> \<not> hasRequiredUploadOpts (apply_plugin plugin compiler)"
  by (simp add: apply_plugin_def connect_def REQUIRED_S3_UP_OPTS_def Let_def)

text \<open>
  C4: when the template has no \<open>Bucket\<close> entry, the build hook appends exactly one error to
  the compilation's errors, the one that names the required upload option, and the pass
  sends no upload request and no invalidation.
\<close>

theorem missing_bucket_one_error_no_upload:
  "uploadOptions plugin ''Bucket'' = None \<Longrightarrow>
   errors (fst (done_hook rt (apply_plugin plugin compiler) compilation now)) =
     errors compilation @ [RequiredS3UploadOpts ''S3Plugin-RequiredS3UploadOpts: Bucket'']
   \<and> pass_uploads (snd (done_hook rt (apply_plugin plugin compiler) compilation now)) = []
   \<and> pass_invalidations (snd (done_hook rt (apply_plugin plugin compiler) compilation now)) = []"
  using apply_plugin_missing[of plugin compiler]
  by (simp add: done_hook_def REQUIRED_S3_UP_OPTS_def)

theorem missing_bucket_one_error_no_upload_witness:
  "errors (fst (done_hook example_runtime
       (apply_plugin (S3Plugin_constructor (example_options\<lparr>c_s3UploadOptions := Map.empty\<rparr>)) example_compiler)
       example_compilation 0)) = [RequiredS3UploadOpts ''S3Plugin-RequiredS3UploadOpts: Bucket'']
   \<and> pass_uploads (snd (done_hook example_runtime
       (apply_plugin (S3Plugin_constructor (example_options\<lparr>c_s3UploadOptions := Map.empty\<rparr>)) example_compiler)
       example_compilation 0)) = []"
  using missing_bucket_one_error_no_upload[of "S3Plugin_constructor (example_options\<lparr>c_s3UploadOptions := Map.empty\<rparr>)"
      example_runtime example_compiler example_compilation 0]
  by (simp add: S3Plugin_constructor_def example_options_def Let_def example_compilation_def)

section \<open>What the promise of an upload batch depends on\<close>

text \<open>
  The tier upload \<open>uploadPriorityChunk\<close> returns the aggregate of the promises of its
  uploads: it is fulfilled exactly when all of them are, and then not before the last one.
\<close>

lemma fold_max_ge: "(n::nat) \<le> fold max ts n"
  by (induction ts arbitrary: n) (auto intro: order_trans[OF max.cobounded2])

lemma fold_max_mem: "(t::nat) \<in> set ts \<Longrightarrow> t \<le> fold max ts n"
proof (induction ts arbitrary: n)
  case Nil
  then show ?case by simp
next
  case (Cons a ts)
  show ?case
  proof (cases "t = a")
    case True
    have "a \<le> max a n" by simp
    also have "\<dots> \<le> fold max ts (max a n)" by (rule fold_max_ge)
    finally show ?thesis using True by simp
  next
    case False
    with Cons.prems have "t \<in> set ts" by simp
    then show ?thesis by (simp add: Cons.IH)
  qed
qed

lemma promise_all_settle_time:
  "is_fulfilled (promise_all now ps) \<Longrightarrow> p \<in> set ps \<Longrightarrow>
   settle_time p \<le> settle_time (promise_all now ps)"
proof -
  assume f: "is_fulfilled (promise_all now ps)" and p: "p \<in> set ps"
  from f have "first_rejection ps = None"
    by (simp add: promise_all_fulfilled first_rejection_None)
  then have "settle_time (promise_all now ps) = fold max (map fst ps) now"
    by (simp add: promise_all_def settle_time_def)
  moreover from p have "fst p \<le> fold max (map fst ps) now"
    by (intro fold_max_mem) simp
  ultimately show ?thesis by (simp add: settle_time_def)
qed

lemma uploadPriorityChunk_aggregate:
  "is_fulfilled (snd (uploadPriorityChunk rt plugin now chunk)) =
     list_all (\<lambda>u. is_fulfilled (promise u)) (fst (fst (uploadPriorityChunk rt plugin now chunk)))"
  by (simp add: uploadPriorityChunk_def promise_all_fulfilled list_all_iff split: prod.splits)

lemma uploadPriorityChunk_waits:
  "is_fulfilled (snd (uploadPriorityChunk rt plugin now chunk)) \<Longrightarrow>
   u \<in> set (fst (fst (uploadPriorityChunk rt plugin now chunk))) \<Longrightarrow>
   settle_time (promise u) \<le> settle_time (snd (uploadPriorityChunk rt plugin now chunk))"
  by (auto simp: uploadPriorityChunk_def split: prod.splits intro: promise_all_settle_time)

text \<open>
  The promise of \<open>uploadFiles\<close> does not: without a priority list it is settled by the base
  path alone, whatever the uploads do; with a priority list no upload is started and the
  promise is rejected.
\<close>

lemma transformBasePath_priority:
  "transformBasePath plugin now = (t, Inr plugin') \<Longrightarrow>
   priority (options plugin') = priority (options plugin)"
  by (cases "basePathTransform plugin (basePath (options plugin)) now")
    (auto simp: transformBasePath_def promise_then_def promise_resolve_def split: sum.splits)

lemma uploadFiles_promise_no_priority:
  "priority (options plugin) = None \<Longrightarrow>
   snd (uploadFiles rt plugin now fs) =
     (case transformBasePath plugin now of (t, Inl e) \<Rightarrow> (t, Inl e) | (t, Inr plugin') \<Rightarrow> (t, Inr ()))"
  by (cases "transformBasePath plugin now")
    (auto simp: uploadFiles_def transformBasePath_priority split: sum.splits)

lemma uploadFiles_priority_starts_nothing:
  "priority (options plugin) = Some ps \<Longrightarrow>
   fst (fst (uploadFiles rt plugin now fs)) = [] \<and> is_rejected (snd (uploadFiles rt plugin now fs))"
proof (cases "transformBasePath plugin now")
  case (Pair t r)
  assume ps: "priority (options plugin) = Some ps"
  show ?thesis
  proof (cases r)
    case (Inl e)
    with Pair show ?thesis by (simp add: uploadFiles_def is_rejected_def)
  next
    case (Inr plugin')
    with Pair ps have "priority (options plugin') = Some ps"
      by (simp add: transformBasePath_priority)
    with Pair Inr show ?thesis
      by (simp add: uploadFiles_priority is_rejected_def)
  qed
qed

section \<open>A pass that uploads\<close>

text \<open>
  With the required option present the same hook lists the asset, uploads it and records no
  error: the pass of the first example, one asset \<open>a.js\<close>.
\<close>

lemma example_plugin:
  "S3Plugin_constructor example_options =
     \<lparr>isConnected = False,
      uploadOptions = [''Bucket'' \<mapsto> Constant (JStr ''bucket'')],
      cloudfrontInvalidateOptions = None,
      basePathTransform = DEFAULT_TRANSFORM,
      options = \<lparr>directory = None, include = None, exclude = None, basePath = [],
                 priority = None, htmlFiles = None, progress = True\<rparr>,
      noCdnizer = True,
      cdnizerOptions_files = [],
      regexps = css_store\<rparr>"
  by (simp add: S3Plugin_constructor_def example_options_def Let_def)

lemma done_hook_example_uploads:
  "map (\<lambda>u. upload u ''Key'')
     (pass_uploads (snd (done_hook example_runtime
        (apply_plugin (S3Plugin_constructor example_options) example_compiler) example_compilation 0))) =
     [Some (JStr ''a.js'')]
   \<and> errors (fst (done_hook example_runtime
        (apply_plugin (S3Plugin_constructor example_options) example_compiler) example_compilation 0)) = []"
proof -
  define P where "P = (S3Plugin_constructor example_options)
         \<lparr>isConnected := True,
          options := (options (S3Plugin_constructor example_options))\<lparr>directory := Some ''/out''\<rparr>\<rparr>"
  define f where "f = \<lparr>path = ''/out/a.js'', name = ''a.js''\<rparr>"
  have hook: "apply_plugin (S3Plugin_constructor example_options) example_compiler =
     \<lparr>hook_plugin = P, isDirectoryUpload = False, hasRequiredUploadOpts = True\<rparr>"
    by (simp add: P_def apply_plugin_def connect_def example_plugin example_compiler_def
          REQUIRED_S3_UP_OPTS_def Let_def)
  have listed: "done_files example_runtime
      \<lparr>hook_plugin = P, isDirectoryUpload = False, hasRequiredUploadOpts = True\<rparr> example_compilation 0 =
      (0, Inr [f])"
    by (simp add: f_def done_files_def getAssetFiles_def promise_resolve_def example_compilation_def)
  have changed: "changeUrls example_runtime P 0 [f] = Inr (P, (0, Inr [f]))"
    by (simp add: changeUrls_def P_def example_plugin promise_resolve_def)
  have filtered: "filterAllowedFiles (RegExp_new example_runtime) (options P) [f] (regexps P) =
      (Inr [f], regexps P)"
    by (simp add: f_def P_def example_plugin filterAllowedFiles_def isIncludeAndNotExclude_def
          isIgnoredFile_a)
  have uploaded: "uploadFiles example_runtime P 0 [f] = (uploadFile_map example_runtime P 0 [f], (0, Inr ()))"
    by (rule uploadFiles_no_priority[of _ _ _ P])
      (simp_all add: transformBasePath_default P_def example_plugin addTrailingS3Sep_Nil)
  obtain u P' where u: "uploadFile example_runtime P 0 (name f) (path f) = (u, P')"
    by (cases "uploadFile example_runtime P 0 (name f) (path f)")
  from u have P': "P' = P"
    by (simp add: uploadFile_def Let_def P_def example_plugin)
  have key: "upload u ''Key'' = Some (JStr ''a.js'')"
    using upload_Key_computed[of P example_runtime 0 "name f" "path f"] u
    by (simp add: f_def P_def example_plugin uploadFile_Key_def)
  have invalidated: "invalidateCloudfront example_runtime P 0 = (([], P), (0, Inr None))"
    by (simp add: invalidateCloudfront_def P_def example_plugin promise_resolve_def)
  have pass: "handleFiles example_runtime P 0 [f] =
      \<lparr>pass_plugin = P, pass_uploads = [u], pass_invalidations = [], pass_promise = (0, Inr None)\<rparr>"
    using u by (simp add: handleFiles_def changed filtered uploaded P' invalidated)
  show ?thesis
    by (simp add: hook done_hook_def listed pass key) (simp add: example_compilation_def)
qed

end
